theory Spec2Isabelle
  imports Main
begin

section \<open>JavaScript values\<close>

text \<open>
  The values the library handles: the arguments a caller passes to the facade and the
  values \<open>JSON.parse\<close> produces. Numbers are the integer-valued ones (a season is
  documented as a Number); \<open>NaN\<close>, fractions and the negative zero are outside the model.
  An object is the list of its own properties, read by the first entry of a name; an
  array and a function have no own properties but the elements. The prototype of an
  object, an array and a function is the built-in one, as the language defines it. A
  function value carries its source text, which is what converting it to a string
  yields.
\<close>

datatype jsval =
    JUndefined
  | JNull
  | JBool bool
  | JNum int
  | JStr string
  | JArr "jsval list"
  | JObj "(string \<times> jsval) list"
  | JFun string

text \<open>
  An exception value: \<open>new Error(message)\<close>, or the language's \<open>TypeError\<close> (a
  property read on \<open>undefined\<close> or \<open>null\<close>, a call of a value that is not a function).
\<close>

datatype js_error = Error string | TypeError

text \<open>Truthiness, as \<open>if (v)\<close>, \<open>!v\<close>, \<open>v || w\<close> and \<open>v ? a : b\<close> decide it.\<close>

fun truthy :: "jsval \<Rightarrow> bool" where
  "truthy JUndefined = False"
| "truthy JNull = False"
| "truthy (JBool b) = b"
| "truthy (JNum n) = (n \<noteq> 0)"
| "truthy (JStr s) = (s \<noteq> [])"
| "truthy (JArr xs) = True"
| "truthy (JObj kvs) = True"
| "truthy (JFun src) = True"

definition js_or :: "jsval \<Rightarrow> jsval \<Rightarrow> jsval" where
  "js_or a b = (if truthy a then a else b)"

text \<open>The predicates of lodash the library uses, on the values of the model.\<close>

definition isUndefined :: "jsval \<Rightarrow> bool" where
  "isUndefined v = (v = JUndefined)"

definition isNull :: "jsval \<Rightarrow> bool" where
  "isNull v = (v = JNull)"

fun isString :: "jsval \<Rightarrow> bool" where
  "isString (JStr s) = True"
| "isString v = False"

fun isFunction :: "jsval \<Rightarrow> bool" where
  "isFunction (JFun src) = True"
| "isFunction v = False"

text \<open>Decimal digits of a number, for the conversion of a number to a string.\<close>

fun digits :: "nat \<Rightarrow> string" where
  "digits n = (if n < 10 then [''0123456789'' ! n]
               else digits (n div 10) @ [''0123456789'' ! (n mod 10)])"

declare digits.simps [simp del]

text \<open>
  What converting a value to a string does: it gives a string; it throws; or it is not
  determined by the values of this model, because it calls a function of the caller's
  (an own \<open>valueOf\<close> or \<open>toString\<close> of an object) and goes on with what that returns, or
  because it prints a number beyond \<open>2^53\<close>, where not every integer is a Number and
  the print of a Number turns to the exponent form.
\<close>

datatype conversion = Converted string | Throws js_error | Indeterminate

text \<open>
  \<open>Array.prototype.join\<close> on the conversions of the elements, made from left to right:
  the first one that gives no string ends the join.
\<close>

fun joined :: "conversion list \<Rightarrow> conversion" where
  "joined [] = Converted []"
| "joined (Converted s # cs) =
     (if cs = [] then Converted s
      else case joined cs of
             Converted t \<Rightarrow> Converted (s @ '','' @ t)
           | Throws e \<Rightarrow> Throws e
           | Indeterminate \<Rightarrow> Indeterminate)"
| "joined (Throws e # cs) = Throws e"
| "joined (Indeterminate # cs) = Indeterminate"

definition own_method :: "(string \<times> jsval) list \<Rightarrow> string \<Rightarrow> bool" where
  "own_method kvs k = (case map_of kvs k of None \<Rightarrow> False | Some f \<Rightarrow> isFunction f)"

text \<open>
  The conversion to a string that \<open>'text' + v\<close> applies to \<open>v\<close>. An array joins its
  elements with commas, \<open>undefined\<close> and \<open>null\<close> elements giving the empty string. An
  object with no own \<open>toString\<close> gives \<open>[object Object]\<close>, through the inherited one; with
  an own \<open>toString\<close> that is not a function, and no own \<open>valueOf\<close> that is one, nothing
  yields a primitive value and the conversion throws a \<open>TypeError\<close>. A function gives its
  source text.
\<close>

fun ToString :: "jsval \<Rightarrow> conversion" where
  "ToString JUndefined = Converted ''undefined''"
| "ToString JNull = Converted ''null''"
| "ToString (JBool b) = Converted (if b then ''true'' else ''false'')"
| "ToString (JNum n) =
     (if 9007199254740992 < \<bar>n\<bar> then Indeterminate
      else Converted (if n < 0 then ''-'' @ digits (nat (- n)) else digits (nat n)))"
| "ToString (JStr s) = Converted s"
| "ToString (JArr xs) =
     joined (map (\<lambda>x. if x = JUndefined \<or> x = JNull then Converted [] else ToString x) xs)"
| "ToString (JObj kvs) =
     (if own_method kvs ''valueOf'' \<or> own_method kvs ''toString'' then Indeterminate
      else if map_of kvs ''toString'' = None then Converted ''[object Object]''
      else Throws TypeError)"
| "ToString (JFun src) = Converted src"

text \<open>
  \<open>a + v\<close> where \<open>a\<close> is a string, or a chain of such sums: \<open>v\<close> is converted once \<open>a\<close> has
  its value, and a conversion that gives no string ends the chain.
\<close>

fun plus :: "conversion \<Rightarrow> jsval \<Rightarrow> conversion" where
  "plus (Converted s) v =
     (case ToString v of
        Converted t \<Rightarrow> Converted (s @ t)
      | Throws e \<Rightarrow> Throws e
      | Indeterminate \<Rightarrow> Indeterminate)"
| "plus (Throws e) v = Throws e"
| "plus Indeterminate v = Indeterminate"

text \<open>
  The property read \<open>v.k\<close>, for the three names the library reads from a parsed body,
  \<open>success\<close>, \<open>data\<close> and \<open>_success\<close>: none of them is defined on a built-in prototype.
  On \<open>undefined\<close> and \<open>null\<close> the read throws a \<open>TypeError\<close>; on a boolean, a number, a
  string, an array or a function it gives \<open>undefined\<close>; on an object it gives the
  property, or \<open>undefined\<close> when the object has none of that name.
\<close>

fun getProp :: "jsval \<Rightarrow> string \<Rightarrow> js_error + jsval" where
  "getProp JUndefined k = Inl TypeError"
| "getProp JNull k = Inl TypeError"
| "getProp (JObj kvs) k = (case map_of kvs k of None \<Rightarrow> Inr JUndefined | Some v \<Rightarrow> Inr v)"
| "getProp v k = Inr JUndefined"

section \<open>The platform table and \<open>normalizePlatform\<close>\<close>

record platform_entry =
  short :: string
  full :: string

definition ENDPOINT :: string where
  "ENDPOINT = ''http://api.captainteemo.com''"

definition PLATFORMS :: "platform_entry list" where
  "PLATFORMS =
     [\<lparr>short = ''na'', full = ''North_America''\<rparr>,
      \<lparr>short = ''br'', full = ''Brasil''\<rparr>,
      \<lparr>short = ''ru'', full = ''Russia''\<rparr>,
      \<lparr>short = ''euw'', full = ''Europe_West''\<rparr>,
      \<lparr>short = ''eun'', full = ''Europe_East''\<rparr>,
      \<lparr>short = ''tr'', full = ''Turkey''\<rparr>,
      \<lparr>short = ''las'', full = ''Latin_America_South''\<rparr>,
      \<lparr>short = ''lan'', full = ''Latin_America_North''\<rparr>]"

text \<open>
  \<open>find(collection, {key: value})\<close> of lodash: the first element whose property \<open>key\<close>
  is strictly equal to \<open>value\<close>, or \<open>undefined\<close> (here \<open>None\<close>). The properties of the
  table are strings, so only a string value can be equal to one.
\<close>

definition find_where :: "platform_entry list \<Rightarrow> (platform_entry \<Rightarrow> string) \<Rightarrow> jsval \<Rightarrow> platform_entry option" where
  "find_where collection key v = List.find (\<lambda>e. JStr (key e) = v) collection"

text \<open>
  \<open>normalizePlatform\<close>: the platform itself when it is a short code, the short code of
  the entry when it is a full name, else \<open>null\<close>.
\<close>

definition normalizePlatform :: "jsval \<Rightarrow> jsval" where
  "normalizePlatform platform =
     (case find_where PLATFORMS short platform of
        Some matchFromShortPlatform \<Rightarrow> platform
      | None \<Rightarrow>
          (case find_where PLATFORMS full platform of
             Some matchFromFullPlatform \<Rightarrow> JStr (short matchFromFullPlatform)
           | None \<Rightarrow> JNull))"

section \<open>Effects: requests handed to the HTTP library, invocations of the callback\<close>

datatype callback_args =
    CbError js_error
  | CbResult jsval

record http_request =
  method' :: string
  uri :: string
  headers :: "(string \<times> string) list"

text \<open>
  What the object returned by \<open>request(requestOptions)\<close> emits: either an \<open>error\<close> event
  (connection refused, DNS failure), or a \<open>response\<close> event whose response emits one
  \<open>data\<close> event per chunk and then \<open>end\<close>.
\<close>

datatype transport =
    Failed js_error
  | Responded "string list"

text \<open>
  The two library routines the code calls: \<open>JSON.parse\<close> (\<open>None\<close> when it throws) and
  \<open>request\<close>, with the network behind it.
\<close>

record env =
  JSON_parse :: "string \<Rightarrow> jsval option"
  request :: "http_request \<Rightarrow> transport"

text \<open>
  What a call of the library leaves behind: the requests it handed to \<open>request\<close>, and the
  calls of callbacks it made, each with the function called and its arguments, oldest
  first.
\<close>

record world =
  sent :: "http_request list"
  invoked :: "(jsval \<times> callback_args) list"

text \<open>
  How a call of the library ends: it returns; it throws to its caller; or it returns
  and an event listener it registered throws later, which nothing catches. \<open>Unknown\<close>
  stands for a call that reached a conversion to a string that is indeterminate: what
  the call does from there on is not determined by the values of this model.
\<close>

datatype completion = Returned | Thrown js_error | Uncaught js_error | Unknown

definition brandError :: "string \<Rightarrow> js_error" where
  "brandError v = Error (''node-resteemo - '' @ v)"

text \<open>
  The call \<open>callback(error)\<close> or \<open>callback(null, response)\<close>: calling a value that is
  not a function throws a \<open>TypeError\<close>; a function is entered, which the world records,
  and is taken to return.
\<close>

definition call :: "jsval \<Rightarrow> callback_args \<Rightarrow> world \<Rightarrow> completion \<times> world" where
  "call callback args w =
     (if isFunction callback then (Returned, w\<lparr>invoked := invoked w @ [(callback, args)]\<rparr>)
      else (Thrown TypeError, w))"

section \<open>\<open>responseHandler\<close>\<close>

text \<open>
  The listener of \<open>end\<close>. As in the source, \<open>response\<close> is first the accumulated body and
  then the value parsed from it. Only \<open>JSON.parse\<close> is inside the \<open>try\<close>: the property
  reads after it throw to whoever emitted \<open>end\<close>.
\<close>

definition on_end :: "env \<Rightarrow> string \<Rightarrow> jsval \<Rightarrow> world \<Rightarrow> completion \<times> world" where
  "on_end E response callback w =
     (case JSON_parse E response of
        None \<Rightarrow> call callback (CbError (brandError ''invalid json response'')) w
      | Some response \<Rightarrow>
          (case getProp response ''success'' of
             Inl e \<Rightarrow> (Thrown e, w)
           | Inr success \<Rightarrow>
               if \<not> truthy success then call callback (CbError (brandError ''api failed'')) w
               else
                 (case getProp response ''data'' of
                    Inl e \<Rightarrow> (Thrown e, w)
                  | Inr data \<Rightarrow>
                      (case getProp data ''_success'' of
                         Inl e \<Rightarrow> (Thrown e, w)
                       | Inr data_success \<Rightarrow>
                           if \<not> isUndefined data_success \<and> \<not> truthy data_success
                           then call callback
                                  (CbError (brandError ''api failed at second success check'')) w
                           else call callback (CbResult response) w))))"

text \<open>An exception that leaves an event listener is caught by nobody.\<close>

fun uncaught :: "completion \<times> world \<Rightarrow> completion \<times> world" where
  "uncaught (Thrown e, w) = (Uncaught e, w)"
| "uncaught (c, w) = (c, w)"

text \<open>
  \<open>responseHandler\<close> listens to \<open>response\<close> only. An \<open>error\<close> event has no listener: the
  emitter throws the error. On a response, the chunks are appended to \<open>response\<close>,
  which starts empty, and \<open>end\<close> runs the listener above.
\<close>

definition responseHandler :: "env \<Rightarrow> transport \<Rightarrow> jsval \<Rightarrow> world \<Rightarrow> completion \<times> world" where
  "responseHandler E req callback w =
     (case req of
        Failed e \<Rightarrow> (Uncaught e, w)
      | Responded chunks \<Rightarrow>
          uncaught (on_end E (foldl (\<lambda>response chunk. response @ chunk) [] chunks) callback w))"

section \<open>The client: \<open>module.exports\<close> and what it closes over\<close>

text \<open>
  \<open>module.exports(refererString)\<close> throws, or returns the facade, whose functions all
  close over \<open>refererString\<close>: the model returns the characters of that string, and
  every function of the facade takes them as an argument.
\<close>

fun characters :: "jsval \<Rightarrow> string" where
  "characters (JStr s) = s"
| "characters v = []"

definition module_exports :: "jsval \<Rightarrow> js_error + string" where
  "module_exports refererString =
     (if \<not> isString refererString then Inl (brandError ''`refererString` not defined'')
      else Inr (characters refererString))"

definition prepareRequest :: "env \<Rightarrow> string \<Rightarrow> string \<Rightarrow> string \<Rightarrow> jsval \<Rightarrow> world \<Rightarrow> completion \<times> world" where
  "prepareRequest E refererString method path' callback w =
     (if \<not> isFunction callback then (Thrown (brandError ''missing callback''), w)
      else
        let headers' = [(''Accept'', ''application/json''), (''User-Agent'', refererString)];
            requestOptions = \<lparr>method' = method, uri = ENDPOINT @ path', headers = headers'\<rparr>;
            req = request E requestOptions
        in responseHandler E req callback (w\<lparr>sent := sent w @ [requestOptions]\<rparr>))"

definition get :: "env \<Rightarrow> string \<Rightarrow> string \<Rightarrow> jsval \<Rightarrow> world \<Rightarrow> completion \<times> world" where
  "get E refererString path' callback w = prepareRequest E refererString ''GET'' path' callback w"

record options =
  platform :: jsval
  summoner :: jsval
  tag :: jsval
  guid :: jsval
  path :: jsval
  season :: jsval

text \<open>An object literal leaves the properties it does not name \<open>undefined\<close>.\<close>

definition no_options :: options where
  "no_options =
     \<lparr>platform = JUndefined, summoner = JUndefined, tag = JUndefined, guid = JUndefined,
      path = JUndefined, season = JUndefined\<rparr>"

text \<open>
  A statement whose expression ends in a string: when evaluating the expression throws,
  the statement throws and what follows it is not run.
\<close>

definition evaluate :: "conversion \<Rightarrow> (string \<Rightarrow> completion \<times> world) \<Rightarrow> world \<Rightarrow> completion \<times> world" where
  "evaluate c continue w =
     (case c of
        Converted s \<Rightarrow> continue s
      | Throws e \<Rightarrow> (Thrown e, w)
      | Indeterminate \<Rightarrow> (Unknown, w))"

text \<open>
  \<open>constructPath\<close>. The sub-path is converted first, in the assignment to
  \<open>options.path\<close>; the argument of \<open>get\<close> is evaluated before \<open>get\<close> is entered, so a
  conversion that throws there throws before the check of the callback and before any
  request.
\<close>

definition constructPath :: "env \<Rightarrow> string \<Rightarrow> options \<Rightarrow> jsval \<Rightarrow> world \<Rightarrow> completion \<times> world" where
  "constructPath E refererString options callback w =
     (let shortPlatform = normalizePlatform (platform options) in
      if isNull shortPlatform then call callback (CbError (brandError ''invalid platform'')) w
      else
        evaluate
          (if isUndefined (path options) then Converted []
           else plus (Converted ''/'') (path options))
          (\<lambda>path'.
             let options = options\<lparr>path := JStr path'\<rparr> in
             if truthy (summoner options) then
               evaluate
                 (plus (plus (plus (plus (plus (Converted ''/player/'') shortPlatform)
                    (JStr ''/'')) (summoner options)) (path options))
                    (js_or (season options) (JStr [])))
                 (\<lambda>p. get E refererString p callback w) w
             else if truthy (js_or (tag options) (guid options)) then
               evaluate
                 (plus (plus (plus (plus (plus (Converted ''/team/'') shortPlatform)
                    (path options)) (JStr ''/'')) (js_or (tag options) (guid options)))
                    (if truthy (guid options) then JStr ''/leagues'' else JStr []))
                 (\<lambda>p. get E refererString p callback w) w
             else
               evaluate (plus (plus (Converted ''/service-state/'') shortPlatform) (path options))
                 (\<lambda>p. get E refererString p callback w) w)
          w)"

section \<open>The facade\<close>

definition teemo_player :: "env \<Rightarrow> string \<Rightarrow> jsval \<Rightarrow> jsval \<Rightarrow> jsval \<Rightarrow> world \<Rightarrow> completion \<times> world" where
  "teemo_player E refererString platform' summoner' callback w =
     constructPath E refererString
       (no_options\<lparr>platform := platform', summoner := summoner'\<rparr>) callback w"

definition teemo_player_ingame :: "env \<Rightarrow> string \<Rightarrow> jsval \<Rightarrow> jsval \<Rightarrow> jsval \<Rightarrow> world \<Rightarrow> completion \<times> world" where
  "teemo_player_ingame E refererString platform' summoner' callback w =
     constructPath E refererString
       (no_options\<lparr>platform := platform', summoner := summoner', path := JStr ''ingame''\<rparr>)
       callback w"

definition teemo_player_recentGames :: "env \<Rightarrow> string \<Rightarrow> jsval \<Rightarrow> jsval \<Rightarrow> jsval \<Rightarrow> world \<Rightarrow> completion \<times> world" where
  "teemo_player_recentGames E refererString platform' summoner' callback w =
     constructPath E refererString
       (no_options\<lparr>platform := platform', summoner := summoner', path := JStr ''recent_games''\<rparr>)
       callback w"

definition teemo_player_influencePoints :: "env \<Rightarrow> string \<Rightarrow> jsval \<Rightarrow> jsval \<Rightarrow> jsval \<Rightarrow> world \<Rightarrow> completion \<times> world" where
  "teemo_player_influencePoints E refererString platform' summoner' callback w =
     constructPath E refererString
       (no_options\<lparr>platform := platform', summoner := summoner',
          path := JStr ''influence_points''\<rparr>)
       callback w"

definition teemo_player_runes :: "env \<Rightarrow> string \<Rightarrow> jsval \<Rightarrow> jsval \<Rightarrow> jsval \<Rightarrow> world \<Rightarrow> completion \<times> world" where
  "teemo_player_runes E refererString platform' summoner' callback w =
     constructPath E refererString
       (no_options\<lparr>platform := platform', summoner := summoner', path := JStr ''runes''\<rparr>)
       callback w"

definition teemo_player_mastery :: "env \<Rightarrow> string \<Rightarrow> jsval \<Rightarrow> jsval \<Rightarrow> jsval \<Rightarrow> world \<Rightarrow> completion \<times> world" where
  "teemo_player_mastery E refererString platform' summoner' callback w =
     constructPath E refererString
       (no_options\<lparr>platform := platform', summoner := summoner', path := JStr ''mastery''\<rparr>)
       callback w"

definition teemo_player_leagues :: "env \<Rightarrow> string \<Rightarrow> jsval \<Rightarrow> jsval \<Rightarrow> jsval \<Rightarrow> world \<Rightarrow> completion \<times> world" where
  "teemo_player_leagues E refererString platform' summoner' callback w =
     constructPath E refererString
       (no_options\<lparr>platform := platform', summoner := summoner', path := JStr ''leagues''\<rparr>)
       callback w"

definition teemo_player_honor :: "env \<Rightarrow> string \<Rightarrow> jsval \<Rightarrow> jsval \<Rightarrow> jsval \<Rightarrow> world \<Rightarrow> completion \<times> world" where
  "teemo_player_honor E refererString platform' summoner' callback w =
     constructPath E refererString
       (no_options\<lparr>platform := platform', summoner := summoner', path := JStr ''honor''\<rparr>)
       callback w"

definition teemo_player_rankedStats :: "env \<Rightarrow> string \<Rightarrow> jsval \<Rightarrow> jsval \<Rightarrow> jsval \<Rightarrow> jsval \<Rightarrow> world \<Rightarrow> completion \<times> world" where
  "teemo_player_rankedStats E refererString platform' summoner' season' callback w =
     constructPath E refererString
       (no_options\<lparr>platform := platform', summoner := summoner',
          path := JStr ''ranked_stats/season/'', season := season'\<rparr>)
       callback w"

definition teemo_player_teams :: "env \<Rightarrow> string \<Rightarrow> jsval \<Rightarrow> jsval \<Rightarrow> jsval \<Rightarrow> world \<Rightarrow> completion \<times> world" where
  "teemo_player_teams E refererString platform' summoner' callback w =
     constructPath E refererString
       (no_options\<lparr>platform := platform', summoner := summoner', path := JStr ''teams''\<rparr>)
       callback w"

definition teemo_team :: "env \<Rightarrow> string \<Rightarrow> jsval \<Rightarrow> jsval \<Rightarrow> jsval \<Rightarrow> world \<Rightarrow> completion \<times> world" where
  "teemo_team E refererString platform' tag' callback w =
     constructPath E refererString
       (no_options\<lparr>platform := platform', tag := tag', path := JStr ''tag''\<rparr>) callback w"

definition teemo_team_leagues :: "env \<Rightarrow> string \<Rightarrow> jsval \<Rightarrow> jsval \<Rightarrow> jsval \<Rightarrow> world \<Rightarrow> completion \<times> world" where
  "teemo_team_leagues E refererString platform' guid' callback w =
     constructPath E refererString
       (no_options\<lparr>platform := platform', guid := guid', path := JStr ''guid''\<rparr>) callback w"

definition teemo_freeWeek :: "env \<Rightarrow> string \<Rightarrow> jsval \<Rightarrow> jsval \<Rightarrow> world \<Rightarrow> completion \<times> world" where
  "teemo_freeWeek E refererString platform' callback w =
     constructPath E refererString
       (no_options\<lparr>platform := platform', path := JStr ''free-week''\<rparr>) callback w"

section \<open>Facts about the platform table\<close>

lemma short_codes: "map short PLATFORMS = [''na'', ''br'', ''ru'', ''euw'', ''eun'', ''tr'', ''las'', ''lan'']"
  by (simp add: PLATFORMS_def)

lemma full_names: "map full PLATFORMS =
  [''North_America'', ''Brasil'', ''Russia'', ''Europe_West'', ''Europe_East'', ''Turkey'',
   ''Latin_America_South'', ''Latin_America_North'']"
  by (simp add: PLATFORMS_def)

lemma find_where_None: "find_where xs key v = None \<longleftrightarrow> (\<forall>e \<in> set xs. JStr (key e) \<noteq> v)"
  by (auto simp: find_where_def find_None_iff)

lemma find_where_Some: "find_where xs key v = Some e \<Longrightarrow> e \<in> set xs \<and> v = JStr (key e)"
  by (auto simp: find_where_def find_Some_iff)

lemma find_where_not_string: "\<not> isString v \<Longrightarrow> find_where xs key v = None"
  by (auto simp: find_where_None)

lemma find_short_hit: "s \<in> set (map key xs) \<Longrightarrow> \<exists>e. find_where xs key (JStr s) = Some e"
  by (cases "find_where xs key (JStr s)") (auto simp: find_where_None)

lemma normalizePlatform_short: "s \<in> set (map short PLATFORMS) \<Longrightarrow> normalizePlatform (JStr s) = JStr s"
  using find_short_hit [of s short PLATFORMS] by (auto simp: normalizePlatform_def)

lemma normalizePlatform_full_all:
  "\<forall>e \<in> set PLATFORMS. normalizePlatform (JStr (full e)) = JStr (short e)"
  by (simp add: normalizePlatform_def find_where_def PLATFORMS_def)

lemma normalizePlatform_full:
  "e \<in> set PLATFORMS \<Longrightarrow> normalizePlatform (JStr (full e)) = JStr (short e)"
  using normalizePlatform_full_all by blast

lemma normalizePlatform_unknown:
  assumes "s \<notin> set (map short PLATFORMS)" and "s \<notin> set (map full PLATFORMS)"
  shows "normalizePlatform (JStr s) = JNull"
proof -
  have "find_where PLATFORMS short (JStr s) = None"
    using assms(1) by (auto simp: find_where_None)
  moreover have "find_where PLATFORMS full (JStr s) = None"
    using assms(2) by (auto simp: find_where_None)
  ultimately show ?thesis by (simp add: normalizePlatform_def)
qed

lemma normalizePlatform_not_string: "\<not> isString v \<Longrightarrow> normalizePlatform v = JNull"
  by (simp add: normalizePlatform_def find_where_not_string)

lemma normalizePlatform_cases:
  "normalizePlatform p = JNull \<or> (\<exists>s \<in> set (map short PLATFORMS). normalizePlatform p = JStr s)"
proof (cases "find_where PLATFORMS short p")
  case (Some e)
  then show ?thesis
    using find_where_Some [OF Some] by (auto simp: normalizePlatform_def)
next
  case None
  show ?thesis
  proof (cases "find_where PLATFORMS full p")
    case inner: None
    with None show ?thesis by (simp add: normalizePlatform_def)
  next
    case (Some e)
    with None find_where_Some [OF Some] show ?thesis by (auto simp: normalizePlatform_def)
  qed
qed

lemma short_not_full: "s \<in> set (map short PLATFORMS) \<Longrightarrow> s \<notin> set (map full PLATFORMS)"
  unfolding short_codes full_names by auto


text \<open>
  C4. The table has 8 entries, whose 16 names are distinct. For each entry,
  \<open>normalizePlatform\<close> returns the short code given the short code and given the full
  name. For every string that is none of the 16 names it returns \<open>null\<close>: it is a total
  function, with no path that throws.
\<close>

theorem normalizePlatform_table:
  "length PLATFORMS = 8 \<and> distinct (map short PLATFORMS @ map full PLATFORMS) \<and>
   (\<forall>e \<in> set PLATFORMS.
      normalizePlatform (JStr (short e)) = JStr (short e) \<and>
      normalizePlatform (JStr (full e)) = JStr (short e)) \<and>
   (\<forall>s. s \<notin> set (map short PLATFORMS @ map full PLATFORMS) \<longrightarrow>
      normalizePlatform (JStr s) = JNull)"
proof (intro conjI ballI allI impI)
  show "length PLATFORMS = 8" by (simp add: PLATFORMS_def)
  show "distinct (map short PLATFORMS @ map full PLATFORMS)"
    unfolding short_codes full_names by simp
next
  fix e assume "e \<in> set PLATFORMS"
  then show "normalizePlatform (JStr (short e)) = JStr (short e)"
    by (simp add: normalizePlatform_short)
  from \<open>e \<in> set PLATFORMS\<close> show "normalizePlatform (JStr (full e)) = JStr (short e)"
    by (rule normalizePlatform_full)
next
  fix s assume "s \<notin> set (map short PLATFORMS @ map full PLATFORMS)"
  then show "normalizePlatform (JStr s) = JNull"
    by (simp add: normalizePlatform_unknown)
qed

theorem normalizePlatform_table_witness:
  "normalizePlatform (JStr ''euw'') = JStr ''euw'' \<and>
   normalizePlatform (JStr ''Europe_West'') = JStr ''euw'' \<and>
   normalizePlatform (JStr ''kr'') = JNull"
proof -
  have m: "\<lparr>short = ''euw'', full = ''Europe_West''\<rparr> \<in> set PLATFORMS"
    by (simp add: PLATFORMS_def)
  have u: "''kr'' \<notin> set (map short PLATFORMS @ map full PLATFORMS)"
    by (simp add: PLATFORMS_def)
  have t: "\<forall>e \<in> set PLATFORMS.
      normalizePlatform (JStr (short e)) = JStr (short e) \<and>
      normalizePlatform (JStr (full e)) = JStr (short e)"
    and n: "\<forall>s. s \<notin> set (map short PLATFORMS @ map full PLATFORMS) \<longrightarrow>
      normalizePlatform (JStr s) = JNull"
    using normalizePlatform_table by blast+
  from bspec [OF t m] n u show ?thesis by simp
qed

section \<open>Facts about the effects\<close>

lemma call_function:
  "isFunction cb \<Longrightarrow> call cb a w = (Returned, w\<lparr>invoked := invoked w @ [(cb, a)]\<rparr>)"
  by (simp add: call_def)

lemma call_not_function: "\<not> isFunction cb \<Longrightarrow> call cb a w = (Thrown TypeError, w)"
  by (simp add: call_def)

lemma sent_call: "sent (snd (call cb a w)) = sent w"
  by (simp add: call_def)

lemma sent_on_end: "sent (snd (on_end E body cb w)) = sent w"
  by (simp add: on_end_def sent_call split: option.splits sum.splits)

lemma snd_uncaught: "snd (uncaught cw) = snd cw"
  by (cases cw rule: uncaught.cases) simp_all

lemma sent_responseHandler: "sent (snd (responseHandler E t cb w)) = sent w"
  by (simp add: responseHandler_def snd_uncaught sent_on_end split: transport.splits)

lemma get_not_function:
  "\<not> isFunction cb \<Longrightarrow> get E r p cb w = (Thrown (brandError ''missing callback''), w)"
  by (simp add: get_def prepareRequest_def)

lemma get_function:
  "isFunction cb \<Longrightarrow>
   get E r p cb w =
     responseHandler E
       (request E \<lparr>method' = ''GET'', uri = ENDPOINT @ p,
          headers = [(''Accept'', ''application/json''), (''User-Agent'', r)]\<rparr>)
       cb
       (w\<lparr>sent := sent w @ [\<lparr>method' = ''GET'', uri = ENDPOINT @ p,
          headers = [(''Accept'', ''application/json''), (''User-Agent'', r)]\<rparr>]\<rparr>)"
  by (simp add: get_def prepareRequest_def Let_def)

lemma sent_get:
  "isFunction cb \<Longrightarrow>
   sent (snd (get E r p cb w)) =
     sent w @ [\<lparr>method' = ''GET'', uri = ENDPOINT @ p,
       headers = [(''Accept'', ''application/json''), (''User-Agent'', r)]\<rparr>]"
  by (simp add: get_function sent_responseHandler)

section \<open>The branches of \<open>constructPath\<close>\<close>

lemma plus_Converted:
  "ToString v = Converted t \<Longrightarrow> plus (Converted a) v = Converted (a @ t)"
  by simp

lemma plus_not_Converted:
  "ToString v = Throws e \<Longrightarrow> plus (Converted a) v = Throws e"
  "ToString v = Indeterminate \<Longrightarrow> plus (Converted a) v = Indeterminate"
  by simp_all

lemma plus_Converted_iff:
  "plus c v = Converted p \<longleftrightarrow>
   (\<exists>a t. c = Converted a \<and> ToString v = Converted t \<and> p = a @ t)"
  by (cases c; cases "ToString v") auto

lemma sub_path_shape:
  assumes "(if v = JUndefined then Converted [] else plus (Converted ''/'') v) = Converted sub"
  shows "sub = [] \<or> hd sub = CHR ''/''"
proof (cases "v = JUndefined")
  case True
  with assms show ?thesis by simp
next
  case False
  with assms show ?thesis by (cases "ToString v") auto
qed

lemma constructPath_invalid:
  "normalizePlatform (platform opts) = JNull \<Longrightarrow>
   constructPath E r opts cb w = call cb (CbError (brandError ''invalid platform'')) w"
  by (simp add: constructPath_def isNull_def)

lemma constructPath_sub_path_fails:
  assumes "normalizePlatform (platform opts) = JStr s"
  shows
    "(if path opts = JUndefined then Converted [] else plus (Converted ''/'') (path opts)) =
       Throws e \<Longrightarrow> constructPath E r opts cb w = (Thrown e, w)"
    "(if path opts = JUndefined then Converted [] else plus (Converted ''/'') (path opts)) =
       Indeterminate \<Longrightarrow> constructPath E r opts cb w = (Unknown, w)"
  using assms by (simp_all add: constructPath_def isNull_def isUndefined_def evaluate_def)

lemma constructPath_resolved:
  assumes "normalizePlatform (platform opts) = JStr s"
    and "(if path opts = JUndefined then Converted [] else plus (Converted ''/'') (path opts)) =
       Converted sub"
  shows "constructPath E r opts cb w =
    (if truthy (summoner opts) then
       evaluate
         (plus (plus (plus (Converted (''/player/'' @ s @ ''/'')) (summoner opts)) (JStr sub))
            (js_or (season opts) (JStr [])))
         (\<lambda>p. get E r p cb w) w
     else if truthy (tag opts) \<or> truthy (guid opts) then
       evaluate
         (plus (plus (Converted (''/team/'' @ s @ sub @ ''/''))
            (if truthy (tag opts) then tag opts else guid opts))
            (if truthy (guid opts) then JStr ''/leagues'' else JStr []))
         (\<lambda>p. get E r p cb w) w
     else get E r (''/service-state/'' @ s @ sub) cb w)"
  using assms
  by (simp add: constructPath_def isNull_def isUndefined_def evaluate_def js_or_def Let_def)

lemma constructPath_summoner:
  assumes "normalizePlatform (platform opts) = JStr s" and "truthy (summoner opts)"
    and "(if path opts = JUndefined then Converted [] else plus (Converted ''/'') (path opts)) =
       Converted sub"
    and "ToString (summoner opts) = Converted sm"
    and "ToString (js_or (season opts) (JStr [])) = Converted ssn"
  shows "constructPath E r opts cb w =
    get E r (''/player/'' @ s @ ''/'' @ sm @ sub @ ssn) cb w"
  using assms(2,4,5) by (simp add: constructPath_resolved [OF assms(1,3)] evaluate_def)


lemma constructPath_service_state:
  assumes "normalizePlatform (platform opts) = JStr s" and "\<not> truthy (summoner opts)"
    and "\<not> truthy (tag opts)" and "\<not> truthy (guid opts)"
    and "(if path opts = JUndefined then Converted [] else plus (Converted ''/'') (path opts)) =
       Converted sub"
  shows "constructPath E r opts cb w = get E r (''/service-state/'' @ s @ sub) cb w"
  using assms(2,3,4) by (simp add: constructPath_resolved [OF assms(1,5)])

text \<open>
  Every way \<open>constructPath\<close> ends once the platform resolves: a conversion throws, or is
  indeterminate, or \<open>get\<close> is entered with a path of one of the three forms.
\<close>

lemma constructPath_outcomes:
  assumes "normalizePlatform (platform opts) = JStr s"
  shows
    "(\<exists>e. constructPath E r opts cb w = (Thrown e, w)) \<or>
     constructPath E r opts cb w = (Unknown, w) \<or>
     (\<exists>pre rest.
        pre \<in> {''/player/'', ''/team/'', ''/service-state/''} \<and>
        (rest = [] \<or> hd rest = CHR ''/'') \<and>
        constructPath E r opts cb w = get E r (pre @ s @ rest) cb w)"
proof (cases "if path opts = JUndefined then Converted [] else plus (Converted ''/'') (path opts)")
  case (Throws e)
  from constructPath_sub_path_fails(1) [OF assms this]
  have "\<exists>e. constructPath E r opts cb w = (Thrown e, w)" ..
  then show ?thesis by (rule disjI1)
next
  case Indeterminate
  from constructPath_sub_path_fails(2) [OF assms this]
  show ?thesis by (intro disjI2 disjI1)
next
  case (Converted sub)
  note cp = constructPath_resolved [OF assms Converted, of E r cb w]
  from sub_path_shape [OF Converted] have shape: "sub = [] \<or> hd sub = CHR ''/''" .
  show ?thesis
  proof (cases "truthy (summoner opts)")
    case True
    show ?thesis
    proof (cases "plus (plus (plus (Converted (''/player/'' @ s @ ''/'')) (summoner opts))
        (JStr sub)) (js_or (season opts) (JStr []))")
      case (Throws e)
      with cp True have "constructPath E r opts cb w = (Thrown e, w)"
        by (simp add: evaluate_def)
      then have "\<exists>e. constructPath E r opts cb w = (Thrown e, w)" ..
      then show ?thesis by (rule disjI1)
    next
      case Indeterminate
      with cp True have "constructPath E r opts cb w = (Unknown, w)"
        by (simp add: evaluate_def)
      then show ?thesis by (intro disjI2 disjI1)
    next
      case c: (Converted p)
      then obtain a3 t3 where
        "plus (plus (Converted (''/player/'' @ s @ ''/'')) (summoner opts)) (JStr sub) =
           Converted a3" and p3: "p = a3 @ t3"
        unfolding plus_Converted_iff by blast
      then obtain a2 t2 where
        "plus (Converted (''/player/'' @ s @ ''/'')) (summoner opts) = Converted a2"
        and p2: "a3 = a2 @ t2"
        unfolding plus_Converted_iff by blast
      then obtain a1 t1 where "Converted (''/player/'' @ s @ ''/'') = Converted a1"
        and p1: "a2 = a1 @ t1"
        unfolding plus_Converted_iff by blast
      with p2 p3 have "p = ''/player/'' @ s @ ''/'' @ (t1 @ t2 @ t3)" by simp
      then obtain rest where "p = ''/player/'' @ s @ ''/'' @ rest" ..
      with cp True c
      have "constructPath E r opts cb w = get E r (''/player/'' @ s @ (''/'' @ rest)) cb w"
        by (simp add: evaluate_def)
      then show ?thesis
        by (intro disjI2 exI [of _ "''/player/''"] exI [of _ "''/'' @ rest"]) simp
    qed
  next
    case nosum: False
    show ?thesis
    proof (cases "truthy (tag opts) \<or> truthy (guid opts)")
      case team: True
      show ?thesis
      proof (cases "plus (plus (Converted (''/team/'' @ s @ sub @ ''/''))
            (if truthy (tag opts) then tag opts else guid opts))
            (if truthy (guid opts) then JStr ''/leagues'' else JStr [])")
        case (Throws e)
        with cp nosum team have "constructPath E r opts cb w = (Thrown e, w)"
          by (simp add: evaluate_def)
        then have "\<exists>e. constructPath E r opts cb w = (Thrown e, w)" ..
        then show ?thesis by (rule disjI1)
      next
        case Indeterminate
        with cp nosum team have "constructPath E r opts cb w = (Unknown, w)"
          by (simp add: evaluate_def)
        then show ?thesis by (intro disjI2 disjI1)
      next
        case c: (Converted p)
        then obtain a2 t2 where
          "plus (Converted (''/team/'' @ s @ sub @ ''/''))
             (if truthy (tag opts) then tag opts else guid opts) = Converted a2"
          and p2: "p = a2 @ t2"
          unfolding plus_Converted_iff by blast
        then obtain a1 t1 where "Converted (''/team/'' @ s @ sub @ ''/'') = Converted a1"
          and p1: "a2 = a1 @ t1"
          unfolding plus_Converted_iff by blast
        with p2 have "p = ''/team/'' @ s @ sub @ ''/'' @ (t1 @ t2)" by simp
        then obtain rest where "p = ''/team/'' @ s @ sub @ ''/'' @ rest" ..
        with cp nosum team c
        have "constructPath E r opts cb w =
            get E r (''/team/'' @ s @ (sub @ ''/'' @ rest)) cb w"
          by (simp add: evaluate_def)
        moreover from shape have "sub @ ''/'' @ rest = [] \<or> hd (sub @ ''/'' @ rest) = CHR ''/''"
          by (cases sub) auto
        ultimately show ?thesis
          by (intro disjI2 exI [of _ "''/team/''"] exI [of _ "sub @ ''/'' @ rest"]) simp
      qed
    next
      case False
      with cp nosum
      have "constructPath E r opts cb w = get E r (''/service-state/'' @ s @ sub) cb w"
        by simp
      with shape show ?thesis
        by (intro disjI2 exI [of _ "''/service-state/''"] exI [of _ sub]) simp
    qed
  qed
qed

lemma normalizePlatform_na: "normalizePlatform (JStr ''na'') = JStr ''na''"
  by (simp add: normalizePlatform_short short_codes)

lemma normalizePlatform_North_America: "normalizePlatform (JStr ''North_America'') = JStr ''na''"
  using normalizePlatform_full [of "\<lparr>short = ''na'', full = ''North_America''\<rparr>"]
  by (simp add: PLATFORMS_def)

lemma normalizePlatform_euw: "normalizePlatform (JStr ''euw'') = JStr ''euw''"
  by (simp add: normalizePlatform_short short_codes)

text \<open>
  A conversion that throws does so before \<open>get\<close> is entered: for a summoner with an own
  \<open>toString\<close> that is not a function, whatever the callback is, nothing is requested and
  the \<open>TypeError\<close> of the conversion is what the caller gets.
\<close>

lemma teemo_player_conversion_throws:
  "teemo_player E r (JStr ''na'') (JObj [(''toString'', JStr ''x'')]) cb w =
     (Thrown TypeError, w)"
  by (simp add: teemo_player_def constructPath_def Let_def isNull_def isUndefined_def
      evaluate_def normalizePlatform_na no_options_def own_method_def)

section \<open>The claims about \<open>constructPath\<close>\<close>

text \<open>
  C6. When the platform of an intent does not resolve (\<open>normalizePlatform\<close> gives
  \<open>null\<close>), \<open>constructPath\<close> hands no request to the HTTP library, and the callback is
  called once, with the error \<open>invalid platform\<close>.
\<close>

theorem constructPath_invalid_platform:
  "normalizePlatform (platform opts) = JNull \<Longrightarrow>
   sent (snd (constructPath E r opts cb w)) = sent w \<and>
   (isFunction cb \<longrightarrow>
      constructPath E r opts cb w =
        (Returned, w\<lparr>invoked := invoked w @ [(cb, CbError (brandError ''invalid platform''))]\<rparr>))"
  by (simp add: constructPath_invalid sent_call call_function)

theorem constructPath_invalid_platform_witness:
  "normalizePlatform (platform (no_options\<lparr>platform := JStr ''kr'', summoner := JStr ''Faker''\<rparr>)) = JNull \<and>
   isFunction (JFun ''function (error, profile) {}'') \<and>
   constructPath
     \<lparr>JSON_parse = (\<lambda>body. None), request = (\<lambda>q. Failed (Error ''connect ECONNREFUSED''))\<rparr>
     ''me@example.com''
     (no_options\<lparr>platform := JStr ''kr'', summoner := JStr ''Faker''\<rparr>)
     (JFun ''function (error, profile) {}'')
     \<lparr>sent = [], invoked = []\<rparr> =
   (Returned,
    \<lparr>sent = [],
     invoked = [(JFun ''function (error, profile) {}'',
                 CbError (Error ''node-resteemo - invalid platform''))]\<rparr>)"
proof -
  have n: "normalizePlatform (platform (no_options\<lparr>platform := JStr ''kr'', summoner := JStr ''Faker''\<rparr>)) = JNull"
    by (simp add: normalizePlatform_unknown short_codes full_names)
  from constructPath_invalid_platform [OF n] show ?thesis
    using n by (simp add: brandError_def)
qed

lemma normalizePlatform_codes:
  "normalizePlatform p = JStr s \<Longrightarrow>
   s \<in> set (map short PLATFORMS) \<and> s \<notin> set (map full PLATFORMS)"
  using normalizePlatform_cases [of p] short_not_full by auto

lemma sent_get_any:
  "sent (snd (get E r p cb w)) = sent w \<or>
   sent (snd (get E r p cb w)) =
     sent w @ [\<lparr>method' = ''GET'', uri = ENDPOINT @ p,
       headers = [(''Accept'', ''application/json''), (''User-Agent'', r)]\<rparr>]"
  by (cases "isFunction cb") (simp_all add: get_not_function sent_get)

lemma sent_constructPath_forms:
  "sent (snd (constructPath E r opts cb w)) = sent w \<or>
   (\<exists>pre s rest.
      pre \<in> {''/player/'', ''/team/'', ''/service-state/''} \<and>
      normalizePlatform (platform opts) = JStr s \<and>
      (rest = [] \<or> hd rest = CHR ''/'') \<and>
      sent (snd (constructPath E r opts cb w)) =
        sent w @ [\<lparr>method' = ''GET'', uri = ENDPOINT @ pre @ s @ rest,
          headers = [(''Accept'', ''application/json''), (''User-Agent'', r)]\<rparr>])"
proof (cases "normalizePlatform (platform opts) = JNull")
  case True
  then show ?thesis by (simp add: constructPath_invalid sent_call)
next
  case False
  then obtain s where s: "normalizePlatform (platform opts) = JStr s"
    using normalizePlatform_cases [of "platform opts"] by auto
  have forms: "sent (snd (constructPath E r opts cb w)) = sent w \<or>
   (\<exists>pre s rest.
      pre \<in> {''/player/'', ''/team/'', ''/service-state/''} \<and>
      normalizePlatform (platform opts) = JStr s \<and>
      (rest = [] \<or> hd rest = CHR ''/'') \<and>
      sent (snd (constructPath E r opts cb w)) =
        sent w @ [\<lparr>method' = ''GET'', uri = ENDPOINT @ pre @ s @ rest,
          headers = [(''Accept'', ''application/json''), (''User-Agent'', r)]\<rparr>])"
    if pre: "pre \<in> {''/player/'', ''/team/'', ''/service-state/''}"
      and shape: "rest = [] \<or> hd rest = CHR ''/''"
      and cp: "constructPath E r opts cb w = get E r (pre @ s @ rest) cb w"
    for pre rest
    using sent_get_any [of E r "pre @ s @ rest" cb w]
  proof
    assume "sent (snd (get E r (pre @ s @ rest) cb w)) = sent w"
    with cp show ?thesis by simp
  next
    assume "sent (snd (get E r (pre @ s @ rest) cb w)) =
      sent w @ [\<lparr>method' = ''GET'', uri = ENDPOINT @ (pre @ s @ rest),
        headers = [(''Accept'', ''application/json''), (''User-Agent'', r)]\<rparr>]"
    with cp have eq: "sent (snd (constructPath E r opts cb w)) =
      sent w @ [\<lparr>method' = ''GET'', uri = ENDPOINT @ pre @ s @ rest,
        headers = [(''Accept'', ''application/json''), (''User-Agent'', r)]\<rparr>]"
      by simp
    show ?thesis
    proof (rule disjI2, rule exI [of _ pre], rule exI [of _ s], rule exI [of _ rest])
      from pre s shape eq
      show "pre \<in> {''/player/'', ''/team/'', ''/service-state/''} \<and>
        normalizePlatform (platform opts) = JStr s \<and>
        (rest = [] \<or> hd rest = CHR ''/'') \<and>
        sent (snd (constructPath E r opts cb w)) =
          sent w @ [\<lparr>method' = ''GET'', uri = ENDPOINT @ pre @ s @ rest,
            headers = [(''Accept'', ''application/json''), (''User-Agent'', r)]\<rparr>]"
        by (intro conjI)
    qed
  qed
  from constructPath_outcomes [OF s, of E r cb w] show ?thesis
  proof (elim disjE exE conjE)
    fix e assume "constructPath E r opts cb w = (Thrown e, w)"
    then show ?thesis by simp
  next
    assume "constructPath E r opts cb w = (Unknown, w)"
    then show ?thesis by simp
  next
    fix pre rest
    assume a: "pre \<in> {''/player/'', ''/team/'', ''/service-state/''}"
      and b: "constructPath E r opts cb w = get E r (pre @ s @ rest) cb w"
      and c: "rest = []"
    show ?thesis by (rule forms [OF a _ b]) (simp add: c)
  next
    fix pre rest
    assume a: "pre \<in> {''/player/'', ''/team/'', ''/service-state/''}"
      and b: "constructPath E r opts cb w = get E r (pre @ s @ rest) cb w"
      and c: "hd rest = CHR ''/''"
    show ?thesis by (rule forms [OF a _ b]) (simp add: c)
  qed
qed

text \<open>
  C2. With a callback that is a function, the summoner intent of platform \<open>na\<close> and
  summoner \<open>Faker\<close>, with no sub-path and no season, requests \<open>/player/na/Faker\<close>, and
  the one of platform \<open>North_America\<close>, summoner \<open>Faker\<close> and sub-path \<open>runes\<close> requests
  \<open>/player/na/Faker/runes\<close>. Every summoner intent whose platform resolves to \<open>s\<close>, and
  whose summoner, sub-path and season convert to strings, requests \<open>/player/s/\<close>
  followed by the summoner, the sub-path and the season, and \<open>s\<close> is a short code and no
  full name. In all three forms, the segment after the first one of the path of a
  request is the short code the platform resolves to.
\<close>

theorem constructPath_player_short_code:
  assumes "isFunction cb"
  shows
    "sent (snd (constructPath E r
        (no_options\<lparr>platform := JStr ''na'', summoner := JStr ''Faker''\<rparr>) cb w)) =
       sent w @ [\<lparr>method' = ''GET'', uri = ''http://api.captainteemo.com/player/na/Faker'',
         headers = [(''Accept'', ''application/json''), (''User-Agent'', r)]\<rparr>] \<and>
     sent (snd (constructPath E r
        (no_options\<lparr>platform := JStr ''North_America'', summoner := JStr ''Faker'',
           path := JStr ''runes''\<rparr>) cb w)) =
       sent w @ [\<lparr>method' = ''GET'',
         uri = ''http://api.captainteemo.com/player/na/Faker/runes'',
         headers = [(''Accept'', ''application/json''), (''User-Agent'', r)]\<rparr>] \<and>
     (\<forall>opts s sm sub ssn.
        normalizePlatform (platform opts) = JStr s \<and> truthy (summoner opts) \<and>
        (if path opts = JUndefined then Converted [] else plus (Converted ''/'') (path opts)) =
          Converted sub \<and>
        ToString (summoner opts) = Converted sm \<and>
        ToString (js_or (season opts) (JStr [])) = Converted ssn \<longrightarrow>
        s \<in> set (map short PLATFORMS) \<and> s \<notin> set (map full PLATFORMS) \<and>
        sent (snd (constructPath E r opts cb w)) =
          sent w @ [\<lparr>method' = ''GET'',
            uri = ENDPOINT @ ''/player/'' @ s @ ''/'' @ sm @ sub @ ssn,
            headers = [(''Accept'', ''application/json''), (''User-Agent'', r)]\<rparr>]) \<and>
     (\<forall>opts. sent (snd (constructPath E r opts cb w)) = sent w \<or>
        (\<exists>pre s rest.
           pre \<in> {''/player/'', ''/team/'', ''/service-state/''} \<and>
           normalizePlatform (platform opts) = JStr s \<and>
           s \<in> set (map short PLATFORMS) \<and> s \<notin> set (map full PLATFORMS) \<and>
           (rest = [] \<or> hd rest = CHR ''/'') \<and>
           sent (snd (constructPath E r opts cb w)) =
             sent w @ [\<lparr>method' = ''GET'', uri = ENDPOINT @ pre @ s @ rest,
               headers = [(''Accept'', ''application/json''), (''User-Agent'', r)]\<rparr>]))"
proof (intro conjI allI impI)
  have "constructPath E r (no_options\<lparr>platform := JStr ''na'', summoner := JStr ''Faker''\<rparr>)
      cb w = get E r (''/player/'' @ ''na'' @ ''/'' @ ''Faker'' @ [] @ []) cb w"
    by (rule constructPath_summoner)
       (simp_all add: no_options_def normalizePlatform_na js_or_def)
  with assms show "sent (snd (constructPath E r
        (no_options\<lparr>platform := JStr ''na'', summoner := JStr ''Faker''\<rparr>) cb w)) =
       sent w @ [\<lparr>method' = ''GET'', uri = ''http://api.captainteemo.com/player/na/Faker'',
         headers = [(''Accept'', ''application/json''), (''User-Agent'', r)]\<rparr>]"
    by (simp add: sent_get ENDPOINT_def)
  have "constructPath E r (no_options\<lparr>platform := JStr ''North_America'',
      summoner := JStr ''Faker'', path := JStr ''runes''\<rparr>) cb w =
    get E r (''/player/'' @ ''na'' @ ''/'' @ ''Faker'' @ ''/runes'' @ []) cb w"
    by (rule constructPath_summoner)
       (simp_all add: no_options_def normalizePlatform_North_America js_or_def)
  with assms show "sent (snd (constructPath E r
        (no_options\<lparr>platform := JStr ''North_America'', summoner := JStr ''Faker'',
           path := JStr ''runes''\<rparr>) cb w)) =
       sent w @ [\<lparr>method' = ''GET'',
         uri = ''http://api.captainteemo.com/player/na/Faker/runes'',
         headers = [(''Accept'', ''application/json''), (''User-Agent'', r)]\<rparr>]"
    by (simp add: sent_get ENDPOINT_def)
next
  fix opts :: options and s sm sub ssn
  assume h: "normalizePlatform (platform opts) = JStr s \<and> truthy (summoner opts) \<and>
        (if path opts = JUndefined then Converted [] else plus (Converted ''/'') (path opts)) =
          Converted sub \<and>
        ToString (summoner opts) = Converted sm \<and>
        ToString (js_or (season opts) (JStr [])) = Converted ssn"
  then show "s \<in> set (map short PLATFORMS)" and "s \<notin> set (map full PLATFORMS)"
    using normalizePlatform_codes by blast+
  from h have "constructPath E r opts cb w =
      get E r (''/player/'' @ s @ ''/'' @ sm @ sub @ ssn) cb w"
    by (intro constructPath_summoner) simp_all
  with assms show "sent (snd (constructPath E r opts cb w)) =
          sent w @ [\<lparr>method' = ''GET'',
            uri = ENDPOINT @ ''/player/'' @ s @ ''/'' @ sm @ sub @ ssn,
            headers = [(''Accept'', ''application/json''), (''User-Agent'', r)]\<rparr>]"
    by (simp add: sent_get)
next
  fix opts :: options
  from sent_constructPath_forms [of E r opts cb w]
  show "sent (snd (constructPath E r opts cb w)) = sent w \<or>
        (\<exists>pre s rest.
           pre \<in> {''/player/'', ''/team/'', ''/service-state/''} \<and>
           normalizePlatform (platform opts) = JStr s \<and>
           s \<in> set (map short PLATFORMS) \<and> s \<notin> set (map full PLATFORMS) \<and>
           (rest = [] \<or> hd rest = CHR ''/'') \<and>
           sent (snd (constructPath E r opts cb w)) =
             sent w @ [\<lparr>method' = ''GET'', uri = ENDPOINT @ pre @ s @ rest,
               headers = [(''Accept'', ''application/json''), (''User-Agent'', r)]\<rparr>])"
  proof
    assume "sent (snd (constructPath E r opts cb w)) = sent w"
    then show ?thesis by (rule disjI1)
  next
    assume "\<exists>pre s rest.
      pre \<in> {''/player/'', ''/team/'', ''/service-state/''} \<and>
      normalizePlatform (platform opts) = JStr s \<and>
      (rest = [] \<or> hd rest = CHR ''/'') \<and>
      sent (snd (constructPath E r opts cb w)) =
        sent w @ [\<lparr>method' = ''GET'', uri = ENDPOINT @ pre @ s @ rest,
          headers = [(''Accept'', ''application/json''), (''User-Agent'', r)]\<rparr>]"
    then obtain pre s rest where
      f: "pre \<in> {''/player/'', ''/team/'', ''/service-state/''}"
        "normalizePlatform (platform opts) = JStr s"
        "rest = [] \<or> hd rest = CHR ''/''"
        "sent (snd (constructPath E r opts cb w)) =
        sent w @ [\<lparr>method' = ''GET'', uri = ENDPOINT @ pre @ s @ rest,
          headers = [(''Accept'', ''application/json''), (''User-Agent'', r)]\<rparr>]"
      by blast
    from normalizePlatform_codes [OF f(2)] f show ?thesis by blast
  qed
qed

theorem constructPath_player_short_code_witness:
  "isFunction (JFun ''function (error, runes) {}'') \<and>
   sent (snd (constructPath
     \<lparr>JSON_parse = (\<lambda>body. None), request = (\<lambda>q. Responded [])\<rparr>
     ''me@example.com''
     (no_options\<lparr>platform := JStr ''Turkey'', summoner := JStr ''Faker'',
        path := JStr ''ranked_stats/season/'', season := JNum 3\<rparr>)
     (JFun ''function (error, runes) {}'')
     \<lparr>sent = [], invoked = []\<rparr>)) =
   [\<lparr>method' = ''GET'',
     uri = ''http://api.captainteemo.com/player/tr/Faker/ranked_stats/season/3'',
     headers = [(''Accept'', ''application/json''), (''User-Agent'', ''me@example.com'')]\<rparr>]"
proof -
  have f: "isFunction (JFun ''function (error, runes) {}'')" by simp
  have n: "normalizePlatform (platform (no_options\<lparr>platform := JStr ''Turkey'',
      summoner := JStr ''Faker'', path := JStr ''ranked_stats/season/'', season := JNum 3\<rparr>)) =
      JStr ''tr''"
    using normalizePlatform_full [of "\<lparr>short = ''tr'', full = ''Turkey''\<rparr>"]
    by (simp add: PLATFORMS_def)
  have c: "truthy (summoner (no_options\<lparr>platform := JStr ''Turkey'',
      summoner := JStr ''Faker'', path := JStr ''ranked_stats/season/'', season := JNum 3\<rparr>)) \<and>
    (if path (no_options\<lparr>platform := JStr ''Turkey'',
      summoner := JStr ''Faker'', path := JStr ''ranked_stats/season/'', season := JNum 3\<rparr>) =
        JUndefined then Converted []
     else plus (Converted ''/'') (path (no_options\<lparr>platform := JStr ''Turkey'',
      summoner := JStr ''Faker'', path := JStr ''ranked_stats/season/'', season := JNum 3\<rparr>))) =
      Converted ''/ranked_stats/season/'' \<and>
    ToString (summoner (no_options\<lparr>platform := JStr ''Turkey'',
      summoner := JStr ''Faker'', path := JStr ''ranked_stats/season/'', season := JNum 3\<rparr>)) =
      Converted ''Faker'' \<and>
    ToString (js_or (season (no_options\<lparr>platform := JStr ''Turkey'',
      summoner := JStr ''Faker'', path := JStr ''ranked_stats/season/'', season := JNum 3\<rparr>))
      (JStr [])) = Converted ''3''"
    by (simp add: no_options_def js_or_def digits.simps)
  have "\<forall>opts s sm sub ssn.
        normalizePlatform (platform opts) = JStr s \<and> truthy (summoner opts) \<and>
        (if path opts = JUndefined then Converted [] else plus (Converted ''/'') (path opts)) =
          Converted sub \<and>
        ToString (summoner opts) = Converted sm \<and>
        ToString (js_or (season opts) (JStr [])) = Converted ssn \<longrightarrow>
        sent (snd (constructPath
          \<lparr>JSON_parse = (\<lambda>body. None), request = (\<lambda>q. Responded [])\<rparr>
          ''me@example.com'' opts (JFun ''function (error, runes) {}'')
          \<lparr>sent = [], invoked = []\<rparr>)) =
          sent \<lparr>sent = [], invoked = []\<rparr> @ [\<lparr>method' = ''GET'',
            uri = ENDPOINT @ ''/player/'' @ s @ ''/'' @ sm @ sub @ ssn,
            headers = [(''Accept'', ''application/json''), (''User-Agent'', ''me@example.com'')]\<rparr>]"
    using constructPath_player_short_code [OF f,
        of "\<lparr>JSON_parse = (\<lambda>body. None), request = (\<lambda>q. Responded [])\<rparr>" "''me@example.com''"
        "\<lparr>sent = [], invoked = []\<rparr>"]
    by blast
  from this [rule_format, OF conjI [OF n c]] f show ?thesis
    by (simp add: ENDPOINT_def)
qed

text \<open>
  C3. With a callback that is a function, the team intent of platform \<open>euw\<close>, guid
  \<open>abc\<close> and sub-path \<open>guid\<close>, which is the intent of \<open>teemo.team.leagues\<close>, requests
  \<open>/team/euw/guid/abc/leagues\<close>; the one of platform \<open>euw\<close>, tag \<open>abc\<close> and sub-path
  \<open>tag\<close>, which is the intent of \<open>teemo.team\<close>, requests \<open>/team/euw/tag/abc\<close>, with no
  \<open>/leagues\<close> after it.
\<close>

theorem team_paths:
  assumes "isFunction cb"
  shows
    "sent (snd (constructPath E r
        (no_options\<lparr>platform := JStr ''euw'', guid := JStr ''abc'', path := JStr ''guid''\<rparr>)
        cb w)) =
       sent w @ [\<lparr>method' = ''GET'',
         uri = ''http://api.captainteemo.com/team/euw/guid/abc/leagues'',
         headers = [(''Accept'', ''application/json''), (''User-Agent'', r)]\<rparr>] \<and>
     sent (snd (constructPath E r
        (no_options\<lparr>platform := JStr ''euw'', tag := JStr ''abc'', path := JStr ''tag''\<rparr>)
        cb w)) =
       sent w @ [\<lparr>method' = ''GET'', uri = ''http://api.captainteemo.com/team/euw/tag/abc'',
         headers = [(''Accept'', ''application/json''), (''User-Agent'', r)]\<rparr>] \<and>
     teemo_team_leagues E r (JStr ''euw'') (JStr ''abc'') cb w =
       constructPath E r
         (no_options\<lparr>platform := JStr ''euw'', guid := JStr ''abc'', path := JStr ''guid''\<rparr>)
         cb w \<and>
     teemo_team E r (JStr ''euw'') (JStr ''abc'') cb w =
       constructPath E r
         (no_options\<lparr>platform := JStr ''euw'', tag := JStr ''abc'', path := JStr ''tag''\<rparr>)
         cb w"
proof (intro conjI)
  show "sent (snd (constructPath E r
        (no_options\<lparr>platform := JStr ''euw'', guid := JStr ''abc'', path := JStr ''guid''\<rparr>)
        cb w)) =
       sent w @ [\<lparr>method' = ''GET'',
         uri = ''http://api.captainteemo.com/team/euw/guid/abc/leagues'',
         headers = [(''Accept'', ''application/json''), (''User-Agent'', r)]\<rparr>]"
    using assms
    by (simp add: constructPath_def Let_def isNull_def isUndefined_def evaluate_def js_or_def
        normalizePlatform_euw no_options_def sent_get ENDPOINT_def)
  show "sent (snd (constructPath E r
        (no_options\<lparr>platform := JStr ''euw'', tag := JStr ''abc'', path := JStr ''tag''\<rparr>)
        cb w)) =
       sent w @ [\<lparr>method' = ''GET'', uri = ''http://api.captainteemo.com/team/euw/tag/abc'',
         headers = [(''Accept'', ''application/json''), (''User-Agent'', r)]\<rparr>]"
    using assms
    by (simp add: constructPath_def Let_def isNull_def isUndefined_def evaluate_def js_or_def
        normalizePlatform_euw no_options_def sent_get ENDPOINT_def)
  show "teemo_team_leagues E r (JStr ''euw'') (JStr ''abc'') cb w =
       constructPath E r
         (no_options\<lparr>platform := JStr ''euw'', guid := JStr ''abc'', path := JStr ''guid''\<rparr>)
         cb w"
    by (simp add: teemo_team_leagues_def)
  show "teemo_team E r (JStr ''euw'') (JStr ''abc'') cb w =
       constructPath E r
         (no_options\<lparr>platform := JStr ''euw'', tag := JStr ''abc'', path := JStr ''tag''\<rparr>)
         cb w"
    by (simp add: teemo_team_def)
qed

theorem team_paths_witness:
  "isFunction (JFun ''function (error, response) {}'') \<and>
   sent (snd (teemo_team_leagues
     \<lparr>JSON_parse = (\<lambda>body. None), request = (\<lambda>q. Responded [])\<rparr>
     ''me@example.com'' (JStr ''euw'') (JStr ''abc'') (JFun ''function (error, response) {}'')
     \<lparr>sent = [], invoked = []\<rparr>)) =
   [\<lparr>method' = ''GET'', uri = ''http://api.captainteemo.com/team/euw/guid/abc/leagues'',
     headers = [(''Accept'', ''application/json''), (''User-Agent'', ''me@example.com'')]\<rparr>] \<and>
   sent (snd (teemo_team
     \<lparr>JSON_parse = (\<lambda>body. None), request = (\<lambda>q. Responded [])\<rparr>
     ''me@example.com'' (JStr ''euw'') (JStr ''abc'') (JFun ''function (error, response) {}'')
     \<lparr>sent = [], invoked = []\<rparr>)) =
   [\<lparr>method' = ''GET'', uri = ''http://api.captainteemo.com/team/euw/tag/abc'',
     headers = [(''Accept'', ''application/json''), (''User-Agent'', ''me@example.com'')]\<rparr>]"
proof -
  have f: "isFunction (JFun ''function (error, response) {}'')" by simp
  from team_paths [OF f, of "\<lparr>JSON_parse = (\<lambda>body. None), request = (\<lambda>q. Responded [])\<rparr>"
      "''me@example.com''" "\<lparr>sent = [], invoked = []\<rparr>"]
  show ?thesis by simp
qed




text \<open>
  C10. The branches of \<open>constructPath\<close> test truthiness, not presence. With a callback
  that is a function and a platform that resolves to \<open>s\<close>: \<open>teemo.player\<close> with the empty
  string for the summoner requests \<open>/service-state/s\<close>; \<open>teemo.team\<close> with the empty
  string for the tag requests \<open>/service-state/s/tag\<close>; an intent whose summoner, tag and
  guid are all falsy, present or not, and whose sub-path converts to a string, requests
  the service-state path; and a falsy season, such as \<open>0\<close>, adds nothing after the
  sub-path of the intent of \<open>teemo.player.rankedStats\<close>, for a truthy summoner that
  converts to a string.
\<close>

theorem constructPath_truthiness:
  assumes "isFunction cb" and "normalizePlatform p = JStr s"
  shows
    "sent (snd (teemo_player E r p (JStr []) cb w)) =
       sent w @ [\<lparr>method' = ''GET'', uri = ENDPOINT @ ''/service-state/'' @ s,
         headers = [(''Accept'', ''application/json''), (''User-Agent'', r)]\<rparr>] \<and>
     sent (snd (teemo_team E r p (JStr []) cb w)) =
       sent w @ [\<lparr>method' = ''GET'', uri = ENDPOINT @ ''/service-state/'' @ s @ ''/tag'',
         headers = [(''Accept'', ''application/json''), (''User-Agent'', r)]\<rparr>] \<and>
     (\<forall>opts sub. platform opts = p \<and> \<not> truthy (summoner opts) \<and> \<not> truthy (tag opts) \<and>
        \<not> truthy (guid opts) \<and>
        (if path opts = JUndefined then Converted [] else plus (Converted ''/'') (path opts)) =
          Converted sub \<longrightarrow>
        sent (snd (constructPath E r opts cb w)) =
          sent w @ [\<lparr>method' = ''GET'', uri = ENDPOINT @ ''/service-state/'' @ s @ sub,
            headers = [(''Accept'', ''application/json''), (''User-Agent'', r)]\<rparr>]) \<and>
     (\<forall>sm ssn t. truthy sm \<and> \<not> truthy ssn \<and> ToString sm = Converted t \<longrightarrow>
        sent (snd (teemo_player_rankedStats E r p sm ssn cb w)) =
          sent w @ [\<lparr>method' = ''GET'',
            uri = ENDPOINT @ ''/player/'' @ s @ ''/'' @ t @ ''/ranked_stats/season/'',
            headers = [(''Accept'', ''application/json''), (''User-Agent'', r)]\<rparr>]) \<and>
     \<not> truthy (JStr []) \<and> \<not> truthy (JNum 0)"
proof (intro conjI allI impI)
  have "teemo_player E r p (JStr []) cb w = get E r (''/service-state/'' @ s @ []) cb w"
    unfolding teemo_player_def
    by (rule constructPath_service_state) (simp_all add: no_options_def assms(2))
  with assms(1) show "sent (snd (teemo_player E r p (JStr []) cb w)) =
       sent w @ [\<lparr>method' = ''GET'', uri = ENDPOINT @ ''/service-state/'' @ s,
         headers = [(''Accept'', ''application/json''), (''User-Agent'', r)]\<rparr>]"
    by (simp add: sent_get)
  have "teemo_team E r p (JStr []) cb w = get E r (''/service-state/'' @ s @ ''/tag'') cb w"
    unfolding teemo_team_def
    by (rule constructPath_service_state) (simp_all add: no_options_def assms(2))
  with assms(1) show "sent (snd (teemo_team E r p (JStr []) cb w)) =
       sent w @ [\<lparr>method' = ''GET'', uri = ENDPOINT @ ''/service-state/'' @ s @ ''/tag'',
         headers = [(''Accept'', ''application/json''), (''User-Agent'', r)]\<rparr>]"
    by (simp add: sent_get)
  show "\<not> truthy (JStr [])" by simp
  show "\<not> truthy (JNum 0)" by simp
next
  fix opts :: options and sub
  assume h: "platform opts = p \<and> \<not> truthy (summoner opts) \<and> \<not> truthy (tag opts) \<and>
        \<not> truthy (guid opts) \<and>
        (if path opts = JUndefined then Converted [] else plus (Converted ''/'') (path opts)) =
          Converted sub"
  with assms(2) have "constructPath E r opts cb w = get E r (''/service-state/'' @ s @ sub) cb w"
    by (intro constructPath_service_state) simp_all
  with assms(1) show "sent (snd (constructPath E r opts cb w)) =
          sent w @ [\<lparr>method' = ''GET'', uri = ENDPOINT @ ''/service-state/'' @ s @ sub,
            headers = [(''Accept'', ''application/json''), (''User-Agent'', r)]\<rparr>]"
    by (simp add: sent_get)
next
  fix sm ssn t
  assume h: "truthy sm \<and> \<not> truthy ssn \<and> ToString sm = Converted t"
  have "teemo_player_rankedStats E r p sm ssn cb w =
      get E r (''/player/'' @ s @ ''/'' @ t @ ''/ranked_stats/season/'' @ []) cb w"
    unfolding teemo_player_rankedStats_def
    by (rule constructPath_summoner) (use h assms(2) in \<open>simp_all add: no_options_def js_or_def\<close>)
  with assms(1) show "sent (snd (teemo_player_rankedStats E r p sm ssn cb w)) =
          sent w @ [\<lparr>method' = ''GET'',
            uri = ENDPOINT @ ''/player/'' @ s @ ''/'' @ t @ ''/ranked_stats/season/'',
            headers = [(''Accept'', ''application/json''), (''User-Agent'', r)]\<rparr>]"
    by (simp add: sent_get)
qed

theorem constructPath_truthiness_witness:
  "map uri (sent (snd (teemo_player
     \<lparr>JSON_parse = (\<lambda>body. None), request = (\<lambda>q. Responded [])\<rparr>
     ''me@example.com'' (JStr ''North_America'') (JStr [])
     (JFun ''function (error, response) {}'') \<lparr>sent = [], invoked = []\<rparr>))) =
     [''http://api.captainteemo.com/service-state/na''] \<and>
   map uri (sent (snd (teemo_team
     \<lparr>JSON_parse = (\<lambda>body. None), request = (\<lambda>q. Responded [])\<rparr>
     ''me@example.com'' (JStr ''North_America'') (JStr [])
     (JFun ''function (error, response) {}'') \<lparr>sent = [], invoked = []\<rparr>))) =
     [''http://api.captainteemo.com/service-state/na/tag''] \<and>
   map uri (sent (snd (teemo_player_rankedStats
     \<lparr>JSON_parse = (\<lambda>body. None), request = (\<lambda>q. Responded [])\<rparr>
     ''me@example.com'' (JStr ''North_America'') (JStr ''Faker'') (JNum 0)
     (JFun ''function (error, response) {}'') \<lparr>sent = [], invoked = []\<rparr>))) =
     [''http://api.captainteemo.com/player/na/Faker/ranked_stats/season/'']"
proof -
  have f: "isFunction (JFun ''function (error, response) {}'')" by simp
  have t: "truthy (JStr ''Faker'') \<and> \<not> truthy (JNum 0) \<and>
      ToString (JStr ''Faker'') = Converted ''Faker''" by simp
  note c = constructPath_truthiness [OF f normalizePlatform_North_America,
      of "\<lparr>JSON_parse = (\<lambda>body. None), request = (\<lambda>q. Responded [])\<rparr>"
      "''me@example.com''" "\<lparr>sent = [], invoked = []\<rparr>"]
  from c have r: "\<forall>sm ssn t. truthy sm \<and> \<not> truthy ssn \<and> ToString sm = Converted t \<longrightarrow>
        sent (snd (teemo_player_rankedStats
          \<lparr>JSON_parse = (\<lambda>body. None), request = (\<lambda>q. Responded [])\<rparr>
          ''me@example.com'' (JStr ''North_America'') sm ssn
          (JFun ''function (error, response) {}'') \<lparr>sent = [], invoked = []\<rparr>)) =
          sent \<lparr>sent = [], invoked = []\<rparr> @ [\<lparr>method' = ''GET'',
            uri = ENDPOINT @ ''/player/'' @ ''na'' @ ''/'' @ t @ ''/ranked_stats/season/'',
            headers = [(''Accept'', ''application/json''), (''User-Agent'', ''me@example.com'')]\<rparr>]"
    by blast
  from c r [rule_format, OF t] show ?thesis by (simp add: ENDPOINT_def)
qed

text \<open>
  C7 fails on the code. With a platform that does not resolve and no callback,
  \<open>teemo.player\<close> calls the absent callback to report the platform and throws the
  \<open>TypeError\<close> of calling \<open>undefined\<close>, where the claim says the error \<open>missing callback\<close>;
  with a platform that resolves, the same call reaches the check of \<open>prepareRequest\<close> and
  throws \<open>missing callback\<close>.
\<close>

theorem teemo_player_unchecked_callback:
  "teemo_player
     \<lparr>JSON_parse = (\<lambda>body. None), request = (\<lambda>q. Responded [])\<rparr>
     ''me@example.com'' (JStr ''kr'') (JStr ''Faker'') JUndefined \<lparr>sent = [], invoked = []\<rparr> =
   (Thrown TypeError, \<lparr>sent = [], invoked = []\<rparr>) \<and>
   TypeError \<noteq> brandError ''missing callback'' \<and>
   teemo_player
     \<lparr>JSON_parse = (\<lambda>body. None), request = (\<lambda>q. Responded [])\<rparr>
     ''me@example.com'' (JStr ''na'') (JStr ''Faker'') JUndefined \<lparr>sent = [], invoked = []\<rparr> =
   (Thrown (brandError ''missing callback''), \<lparr>sent = [], invoked = []\<rparr>)"
proof -
  have "normalizePlatform (JStr ''kr'') = JNull"
    by (simp add: normalizePlatform_unknown short_codes full_names)
  then have "teemo_player
     \<lparr>JSON_parse = (\<lambda>body. None), request = (\<lambda>q. Responded [])\<rparr>
     ''me@example.com'' (JStr ''kr'') (JStr ''Faker'') JUndefined \<lparr>sent = [], invoked = []\<rparr> =
   (Thrown TypeError, \<lparr>sent = [], invoked = []\<rparr>)"
    by (simp add: teemo_player_def constructPath_invalid call_not_function no_options_def)
  moreover have "teemo_player
     \<lparr>JSON_parse = (\<lambda>body. None), request = (\<lambda>q. Responded [])\<rparr>
     ''me@example.com'' (JStr ''na'') (JStr ''Faker'') JUndefined \<lparr>sent = [], invoked = []\<rparr> =
   (Thrown (brandError ''missing callback''), \<lparr>sent = [], invoked = []\<rparr>)"
    by (simp add: teemo_player_def constructPath_def Let_def isNull_def isUndefined_def
        evaluate_def js_or_def normalizePlatform_na no_options_def get_not_function)
  ultimately show ?thesis by (simp add: brandError_def)
qed

section \<open>The claims about \<open>responseHandler\<close>\<close>

lemma foldl_append: "foldl (\<lambda>response chunk. response @ chunk) acc chunks = acc @ concat chunks"
  by (induction chunks arbitrary: acc) simp_all

lemma responseHandler_Responded:
  "responseHandler E (Responded chunks) cb w = uncaught (on_end E (concat chunks) cb w)"
  by (simp add: responseHandler_def foldl_append)

lemma getProp_throws: "getProp v k = Inl e \<longleftrightarrow> e = TypeError \<and> (v = JUndefined \<or> v = JNull)"
  by (cases v) (auto split: option.splits)

lemma getProp_total: "v \<noteq> JUndefined \<Longrightarrow> v \<noteq> JNull \<Longrightarrow> \<exists>x. getProp v k = Inr x"
  by (cases v) (auto split: option.splits)

lemma on_end_unparseable:
  "JSON_parse E body = None \<Longrightarrow>
   on_end E body cb w = call cb (CbError (brandError ''invalid json response'')) w"
  by (simp add: on_end_def)

lemma on_end_unreadable:
  "JSON_parse E body = Some response \<Longrightarrow> response = JUndefined \<or> response = JNull \<Longrightarrow>
   on_end E body cb w = (Thrown TypeError, w)"
  by (auto simp: on_end_def)

lemma on_end_failed:
  "JSON_parse E body = Some response \<Longrightarrow> getProp response ''success'' = Inr success \<Longrightarrow>
   \<not> truthy success \<Longrightarrow>
   on_end E body cb w = call cb (CbError (brandError ''api failed'')) w"
  by (simp add: on_end_def)

lemma on_end_no_data:
  "JSON_parse E body = Some response \<Longrightarrow> getProp response ''success'' = Inr success \<Longrightarrow>
   truthy success \<Longrightarrow> getProp response ''data'' = Inr data \<Longrightarrow>
   data = JUndefined \<or> data = JNull \<Longrightarrow>
   on_end E body cb w = (Thrown TypeError, w)"
  by (auto simp: on_end_def)

lemma on_end_failed_second:
  "JSON_parse E body = Some response \<Longrightarrow> getProp response ''success'' = Inr success \<Longrightarrow>
   truthy success \<Longrightarrow> getProp response ''data'' = Inr data \<Longrightarrow>
   getProp data ''_success'' = Inr data_success \<Longrightarrow>
   data_success \<noteq> JUndefined \<Longrightarrow> \<not> truthy data_success \<Longrightarrow>
   on_end E body cb w =
     call cb (CbError (brandError ''api failed at second success check'')) w"
  by (simp add: on_end_def isUndefined_def)

lemma on_end_result:
  "JSON_parse E body = Some response \<Longrightarrow> getProp response ''success'' = Inr success \<Longrightarrow>
   truthy success \<Longrightarrow> getProp response ''data'' = Inr data \<Longrightarrow>
   getProp data ''_success'' = Inr data_success \<Longrightarrow>
   data_success = JUndefined \<or> truthy data_success \<Longrightarrow>
   on_end E body cb w = call cb (CbResult response) w"
  by (auto simp: on_end_def isUndefined_def)

lemma on_end_outcomes:
  "on_end E body cb w = (Thrown TypeError, w) \<or> (\<exists>a. on_end E body cb w = call cb a w)"
  by (auto simp: on_end_def getProp_throws split: option.splits sum.splits)

lemma uncaught_call:
  "isFunction cb \<Longrightarrow> uncaught (call cb a w) = (Returned, w\<lparr>invoked := invoked w @ [(cb, a)]\<rparr>)"
  by (simp add: call_function)

text \<open>
  C1, as the code has it. With a callback that is a function, on a response whose body
  is the concatenation of its chunks: when \<open>JSON.parse\<close> throws, the callback is called
  once, with the error \<open>invalid json response\<close>; else, when the read of \<open>success\<close> on the
  parsed value does not throw and gives a falsy value, the callback is called once,
  with the error \<open>api failed\<close>; else, when the read of \<open>data._success\<close> does not throw
  either, the callback is called once, with the error \<open>api failed at second success
  check\<close> when \<open>data._success\<close> is not \<open>undefined\<close> and falsy, and with the parsed value
  itself otherwise.
\<close>

theorem responseHandler_checks:
  assumes "isFunction cb"
  shows
    "(JSON_parse E (concat chunks) = None \<longrightarrow>
        responseHandler E (Responded chunks) cb w =
          (Returned,
           w\<lparr>invoked := invoked w @ [(cb, CbError (brandError ''invalid json response''))]\<rparr>)) \<and>
     (\<forall>response success.
        JSON_parse E (concat chunks) = Some response \<and>
        getProp response ''success'' = Inr success \<and> \<not> truthy success \<longrightarrow>
        responseHandler E (Responded chunks) cb w =
          (Returned, w\<lparr>invoked := invoked w @ [(cb, CbError (brandError ''api failed''))]\<rparr>)) \<and>
     (\<forall>response success data data_success.
        JSON_parse E (concat chunks) = Some response \<and>
        getProp response ''success'' = Inr success \<and> truthy success \<and>
        getProp response ''data'' = Inr data \<and>
        getProp data ''_success'' = Inr data_success \<longrightarrow>
        responseHandler E (Responded chunks) cb w =
          (Returned,
           w\<lparr>invoked := invoked w @
             [(cb, if data_success \<noteq> JUndefined \<and> \<not> truthy data_success
                   then CbError (brandError ''api failed at second success check'')
                   else CbResult response)]\<rparr>))"
proof (intro conjI allI impI)
  assume "JSON_parse E (concat chunks) = None"
  with assms show "responseHandler E (Responded chunks) cb w =
          (Returned,
           w\<lparr>invoked := invoked w @ [(cb, CbError (brandError ''invalid json response''))]\<rparr>)"
    by (simp add: responseHandler_Responded on_end_unparseable uncaught_call)
next
  fix response success
  assume "JSON_parse E (concat chunks) = Some response \<and>
        getProp response ''success'' = Inr success \<and> \<not> truthy success"
  with assms show "responseHandler E (Responded chunks) cb w =
          (Returned, w\<lparr>invoked := invoked w @ [(cb, CbError (brandError ''api failed''))]\<rparr>)"
    by (simp add: responseHandler_Responded on_end_failed uncaught_call)
next
  fix response success data data_success
  assume h: "JSON_parse E (concat chunks) = Some response \<and>
        getProp response ''success'' = Inr success \<and> truthy success \<and>
        getProp response ''data'' = Inr data \<and>
        getProp data ''_success'' = Inr data_success"
  show "responseHandler E (Responded chunks) cb w =
          (Returned,
           w\<lparr>invoked := invoked w @
             [(cb, if data_success \<noteq> JUndefined \<and> \<not> truthy data_success
                   then CbError (brandError ''api failed at second success check'')
                   else CbResult response)]\<rparr>)"
  proof (cases "data_success \<noteq> JUndefined \<and> \<not> truthy data_success")
    case True
    with h assms show ?thesis
      by (simp add: responseHandler_Responded on_end_failed_second uncaught_call)
  next
    case False
    then have "data_success = JUndefined \<or> truthy data_success" by blast
    with h have "on_end E (concat chunks) cb w = call cb (CbResult response) w"
      by (intro on_end_result [where success = success and data = data
            and data_success = data_success]) simp_all
    with False assms show ?thesis
      by (simp add: responseHandler_Responded uncaught_call)
  qed
qed

theorem responseHandler_checks_witness:
  \<open>isFunction (JFun ''function (error, response) {}'') \<and>
   responseHandler
     \<lparr>JSON_parse = [''{"success": false}'' \<mapsto> JObj [(''success'', JBool False)]],
      request = (\<lambda>q. Responded [''{"success": false}''])\<rparr>
     (Responded [''{"success": false}'']) (JFun ''function (error, response) {}'')
     \<lparr>sent = [], invoked = []\<rparr> =
   (Returned,
    \<lparr>sent = [],
     invoked = [(JFun ''function (error, response) {}'',
                 CbError (Error ''node-resteemo - api failed''))]\<rparr>) \<and>
   responseHandler
     \<lparr>JSON_parse = [''{"success": true, "data": {"_success": false}}'' \<mapsto>
        JObj [(''success'', JBool True), (''data'', JObj [(''_success'', JBool False)])]],
      request = (\<lambda>q. Responded [''{"success": true, '', ''"data": {"_success": false}}''])\<rparr>
     (Responded [''{"success": true, '', ''"data": {"_success": false}}''])
     (JFun ''function (error, response) {}'') \<lparr>sent = [], invoked = []\<rparr> =
   (Returned,
    \<lparr>sent = [],
     invoked = [(JFun ''function (error, response) {}'',
                 CbError (Error ''node-resteemo - api failed at second success check''))]\<rparr>) \<and>
   responseHandler
     \<lparr>JSON_parse = [''{"success": true, "data": {"_success": true, "x": 1}}'' \<mapsto>
        JObj [(''success'', JBool True),
              (''data'', JObj [(''_success'', JBool True), (''x'', JNum 1)])]],
      request = (\<lambda>q. Responded [''{"success": true, "data": {"_success": true, "x": 1}}''])\<rparr>
     (Responded [''{"success": true, "data": {"_success": true, "x": 1}}''])
     (JFun ''function (error, response) {}'') \<lparr>sent = [], invoked = []\<rparr> =
   (Returned,
    \<lparr>sent = [],
     invoked = [(JFun ''function (error, response) {}'',
                 CbResult (JObj [(''success'', JBool True),
                   (''data'', JObj [(''_success'', JBool True), (''x'', JNum 1)])]))]\<rparr>) \<and>
   responseHandler
     \<lparr>JSON_parse = Map.empty, request = (\<lambda>q. Responded [''<html>Bad Gateway</html>''])\<rparr>
     (Responded [''<html>Bad Gateway</html>'']) (JFun ''function (error, response) {}'')
     \<lparr>sent = [], invoked = []\<rparr> =
   (Returned,
    \<lparr>sent = [],
     invoked = [(JFun ''function (error, response) {}'',
                 CbError (Error ''node-resteemo - invalid json response''))]\<rparr>)\<close>
proof -
  have f: "isFunction (JFun ''function (error, response) {}'')" by simp
  note t = responseHandler_checks [OF f]
  have a: \<open>responseHandler
     \<lparr>JSON_parse = [''{"success": false}'' \<mapsto> JObj [(''success'', JBool False)]],
      request = (\<lambda>q. Responded [''{"success": false}''])\<rparr>
     (Responded [''{"success": false}'']) (JFun ''function (error, response) {}'')
     \<lparr>sent = [], invoked = []\<rparr> =
   (Returned,
    \<lparr>sent = [],
     invoked = [(JFun ''function (error, response) {}'',
                 CbError (Error ''node-resteemo - api failed''))]\<rparr>)\<close>
    using t [of \<open>\<lparr>JSON_parse = [''{"success": false}'' \<mapsto> JObj [(''success'', JBool False)]],
      request = (\<lambda>q. Responded [''{"success": false}''])\<rparr>\<close> \<open>[''{"success": false}'']\<close>
      \<open>\<lparr>sent = [], invoked = []\<rparr>\<close>]
    by (simp add: brandError_def)
  have b: \<open>responseHandler
     \<lparr>JSON_parse = [''{"success": true, "data": {"_success": false}}'' \<mapsto>
        JObj [(''success'', JBool True), (''data'', JObj [(''_success'', JBool False)])]],
      request = (\<lambda>q. Responded [''{"success": true, '', ''"data": {"_success": false}}''])\<rparr>
     (Responded [''{"success": true, '', ''"data": {"_success": false}}''])
     (JFun ''function (error, response) {}'') \<lparr>sent = [], invoked = []\<rparr> =
   (Returned,
    \<lparr>sent = [],
     invoked = [(JFun ''function (error, response) {}'',
                 CbError (Error ''node-resteemo - api failed at second success check''))]\<rparr>)\<close>
    using t [of \<open>\<lparr>JSON_parse = [''{"success": true, "data": {"_success": false}}'' \<mapsto>
        JObj [(''success'', JBool True), (''data'', JObj [(''_success'', JBool False)])]],
      request = (\<lambda>q. Responded [''{"success": true, '', ''"data": {"_success": false}}''])\<rparr>\<close>
      \<open>[''{"success": true, '', ''"data": {"_success": false}}'']\<close>
      \<open>\<lparr>sent = [], invoked = []\<rparr>\<close>]
    by (simp add: brandError_def)
  have c: \<open>responseHandler
     \<lparr>JSON_parse = [''{"success": true, "data": {"_success": true, "x": 1}}'' \<mapsto>
        JObj [(''success'', JBool True),
              (''data'', JObj [(''_success'', JBool True), (''x'', JNum 1)])]],
      request = (\<lambda>q. Responded [''{"success": true, "data": {"_success": true, "x": 1}}''])\<rparr>
     (Responded [''{"success": true, "data": {"_success": true, "x": 1}}''])
     (JFun ''function (error, response) {}'') \<lparr>sent = [], invoked = []\<rparr> =
   (Returned,
    \<lparr>sent = [],
     invoked = [(JFun ''function (error, response) {}'',
                 CbResult (JObj [(''success'', JBool True),
                   (''data'', JObj [(''_success'', JBool True), (''x'', JNum 1)])]))]\<rparr>)\<close>
    using t [of \<open>\<lparr>JSON_parse = [''{"success": true, "data": {"_success": true, "x": 1}}'' \<mapsto>
        JObj [(''success'', JBool True),
              (''data'', JObj [(''_success'', JBool True), (''x'', JNum 1)])]],
      request = (\<lambda>q. Responded [''{"success": true, "data": {"_success": true, "x": 1}}''])\<rparr>\<close>
      \<open>[''{"success": true, "data": {"_success": true, "x": 1}}'']\<close>
      \<open>\<lparr>sent = [], invoked = []\<rparr>\<close>]
    by (simp add: brandError_def)
  have d: \<open>responseHandler
     \<lparr>JSON_parse = Map.empty, request = (\<lambda>q. Responded [''<html>Bad Gateway</html>''])\<rparr>
     (Responded [''<html>Bad Gateway</html>'']) (JFun ''function (error, response) {}'')
     \<lparr>sent = [], invoked = []\<rparr> =
   (Returned,
    \<lparr>sent = [],
     invoked = [(JFun ''function (error, response) {}'',
                 CbError (Error ''node-resteemo - invalid json response''))]\<rparr>)\<close>
    using t [of \<open>\<lparr>JSON_parse = Map.empty,
      request = (\<lambda>q. Responded [''<html>Bad Gateway</html>''])\<rparr>\<close>
      \<open>[''<html>Bad Gateway</html>'']\<close> \<open>\<lparr>sent = [], invoked = []\<rparr>\<close>]
    by (simp add: brandError_def)
  from f a b c d show ?thesis by blast
qed

text \<open>
  C1 as stated fails: the body \<open>{"success": true}\<close> parses, its \<open>success\<close> is truthy and
  it has no \<open>data._success\<close>, yet the parsed value is not returned: the read of
  \<open>_success\<close> on the absent \<open>data\<close> throws, and the callback is not called.
\<close>

theorem responseHandler_checks_counterexample:
  \<open>getProp (JObj [(''success'', JBool True)]) ''success'' = Inr (JBool True) \<and>
   getProp (JObj [(''success'', JBool True)]) ''data'' = Inr JUndefined \<and>
   responseHandler
     \<lparr>JSON_parse = [''{"success": true}'' \<mapsto> JObj [(''success'', JBool True)]],
      request = (\<lambda>q. Responded [''{"success": true}''])\<rparr>
     (Responded [''{"success": true}'']) (JFun ''function (error, response) {}'')
     \<lparr>sent = [], invoked = []\<rparr> =
   (Uncaught TypeError, \<lparr>sent = [], invoked = []\<rparr>)\<close>
  by (simp add: responseHandler_Responded on_end_def)

lemma responseHandler_call:
  "isFunction cb \<Longrightarrow> on_end E (concat chunks) cb w = call cb a w \<Longrightarrow>
   responseHandler E (Responded chunks) cb w =
     (Returned, w\<lparr>invoked := invoked w @ [(cb, a)]\<rparr>)"
  by (simp add: responseHandler_Responded uncaught_call)

lemma on_end_calls:
  assumes "JSON_parse E body = None \<or>
     (\<exists>response success.
        JSON_parse E body = Some response \<and> getProp response ''success'' = Inr success \<and>
        (truthy success \<longrightarrow>
           (\<exists>data data_success.
              getProp response ''data'' = Inr data \<and>
              getProp data ''_success'' = Inr data_success)))"
  shows "\<exists>a. on_end E body cb w = call cb a w"
  using assms
proof
  assume "JSON_parse E body = None"
  then show ?thesis by (blast intro: on_end_unparseable)
next
  assume "\<exists>response success.
        JSON_parse E body = Some response \<and> getProp response ''success'' = Inr success \<and>
        (truthy success \<longrightarrow>
           (\<exists>data data_success.
              getProp response ''data'' = Inr data \<and>
              getProp data ''_success'' = Inr data_success))"
  then obtain response success where
    p: "JSON_parse E body = Some response" and s: "getProp response ''success'' = Inr success"
    and d: "truthy success \<longrightarrow>
           (\<exists>data data_success.
              getProp response ''data'' = Inr data \<and>
              getProp data ''_success'' = Inr data_success)"
    by blast
  show ?thesis
  proof (cases "truthy success")
    case False
    with p s show ?thesis by (blast intro: on_end_failed)
  next
    case True
    with d obtain data ds where
      g: "getProp response ''data'' = Inr data" "getProp data ''_success'' = Inr ds"
      by blast
    show ?thesis
    proof (cases "ds \<noteq> JUndefined \<and> \<not> truthy ds")
      case True
      with p s \<open>truthy success\<close> g show ?thesis by (blast intro: on_end_failed_second)
    next
      case False
      then have "ds = JUndefined \<or> truthy ds" by blast
      from on_end_result [OF p s True g this] show ?thesis by blast
    qed
  qed
qed

text \<open>
  C9, as the code has it. For a parsed body whose \<open>success\<close> is truthy: when \<open>data\<close> is
  absent (\<open>undefined\<close>) or \<open>null\<close>, the read of \<open>data._success\<close>, which is outside the
  \<open>try\<close> around \<open>JSON.parse\<close>, throws a \<open>TypeError\<close> that nothing catches, and the callback
  is not called, with an error or with a result. When \<open>data\<close> is anything else, the
  callback is called once; when it is a boolean, a number, a string or an array, the
  read gives \<open>undefined\<close> and the callback gets the parsed value.
\<close>

theorem responseHandler_data_unreadable:
  assumes "JSON_parse E (concat chunks) = Some response"
    and "getProp response ''success'' = Inr success" and "truthy success"
    and "getProp response ''data'' = Inr data"
  shows
    "(data = JUndefined \<or> data = JNull \<longrightarrow>
        responseHandler E (Responded chunks) cb w = (Uncaught TypeError, w)) \<and>
     (data \<noteq> JUndefined \<and> data \<noteq> JNull \<and> isFunction cb \<longrightarrow>
        (\<exists>a. responseHandler E (Responded chunks) cb w =
           (Returned, w\<lparr>invoked := invoked w @ [(cb, a)]\<rparr>))) \<and>
     (((\<exists>b. data = JBool b) \<or> (\<exists>n. data = JNum n) \<or> (\<exists>s. data = JStr s) \<or>
       (\<exists>xs. data = JArr xs)) \<and> isFunction cb \<longrightarrow>
        responseHandler E (Responded chunks) cb w =
          (Returned, w\<lparr>invoked := invoked w @ [(cb, CbResult response)]\<rparr>))"
proof (intro conjI impI)
  assume "data = JUndefined \<or> data = JNull"
  with assms have "on_end E (concat chunks) cb w = (Thrown TypeError, w)"
    by (intro on_end_no_data [where success = success and data = data]) simp_all
  then show "responseHandler E (Responded chunks) cb w = (Uncaught TypeError, w)"
    by (simp add: responseHandler_Responded)
next
  assume h: "data \<noteq> JUndefined \<and> data \<noteq> JNull \<and> isFunction cb"
  then obtain ds where ds: "getProp data ''_success'' = Inr ds"
    using getProp_total [of data "''_success''"] by blast
  show "\<exists>a. responseHandler E (Responded chunks) cb w =
           (Returned, w\<lparr>invoked := invoked w @ [(cb, a)]\<rparr>)"
  proof (cases "ds \<noteq> JUndefined \<and> \<not> truthy ds")
    case True
    with assms ds have "on_end E (concat chunks) cb w =
        call cb (CbError (brandError ''api failed at second success check'')) w"
      by (intro on_end_failed_second [where success = success and data = data
            and data_success = ds]) simp_all
    with h show ?thesis by (blast intro: responseHandler_call)
  next
    case False
    then have "ds = JUndefined \<or> truthy ds" by blast
    with assms ds have "on_end E (concat chunks) cb w = call cb (CbResult response) w"
      by (intro on_end_result [where success = success and data = data
            and data_success = ds]) simp_all
    with h show ?thesis by (blast intro: responseHandler_call)
  qed
next
  assume h: "((\<exists>b. data = JBool b) \<or> (\<exists>n. data = JNum n) \<or> (\<exists>s. data = JStr s) \<or>
       (\<exists>xs. data = JArr xs)) \<and> isFunction cb"
  then have "getProp data ''_success'' = Inr JUndefined" by auto
  with assms have "on_end E (concat chunks) cb w = call cb (CbResult response) w"
    by (intro on_end_result [where success = success and data = data
          and data_success = JUndefined]) simp_all
  with h show "responseHandler E (Responded chunks) cb w =
          (Returned, w\<lparr>invoked := invoked w @ [(cb, CbResult response)]\<rparr>)"
    by (simp add: responseHandler_Responded uncaught_call)
qed

theorem responseHandler_data_unreadable_witness:
  \<open>responseHandler
     \<lparr>JSON_parse = [''{"success": true}'' \<mapsto> JObj [(''success'', JBool True)]],
      request = (\<lambda>q. Responded [''{"success": true}''])\<rparr>
     (Responded [''{"success": true}'']) (JFun ''function (error, response) {}'')
     \<lparr>sent = [], invoked = []\<rparr> =
   (Uncaught TypeError, \<lparr>sent = [], invoked = []\<rparr>) \<and>
   responseHandler
     \<lparr>JSON_parse = [''{"success": true, "data": null}'' \<mapsto>
        JObj [(''success'', JBool True), (''data'', JNull)]],
      request = (\<lambda>q. Responded [''{"success": true, "data": null}''])\<rparr>
     (Responded [''{"success": true, "data": null}'']) (JFun ''function (error, response) {}'')
     \<lparr>sent = [], invoked = []\<rparr> =
   (Uncaught TypeError, \<lparr>sent = [], invoked = []\<rparr>)\<close>
proof -
  have a: \<open>responseHandler
     \<lparr>JSON_parse = [''{"success": true}'' \<mapsto> JObj [(''success'', JBool True)]],
      request = (\<lambda>q. Responded [''{"success": true}''])\<rparr>
     (Responded [''{"success": true}'']) (JFun ''function (error, response) {}'')
     \<lparr>sent = [], invoked = []\<rparr> =
   (Uncaught TypeError, \<lparr>sent = [], invoked = []\<rparr>)\<close>
    using responseHandler_data_unreadable
      [of \<open>\<lparr>JSON_parse = [''{"success": true}'' \<mapsto> JObj [(''success'', JBool True)]],
        request = (\<lambda>q. Responded [''{"success": true}''])\<rparr>\<close> \<open>[''{"success": true}'']\<close>
        \<open>JObj [(''success'', JBool True)]\<close> \<open>JBool True\<close> JUndefined
        \<open>JFun ''function (error, response) {}''\<close> \<open>\<lparr>sent = [], invoked = []\<rparr>\<close>]
    by simp
  have b: \<open>responseHandler
     \<lparr>JSON_parse = [''{"success": true, "data": null}'' \<mapsto>
        JObj [(''success'', JBool True), (''data'', JNull)]],
      request = (\<lambda>q. Responded [''{"success": true, "data": null}''])\<rparr>
     (Responded [''{"success": true, "data": null}'']) (JFun ''function (error, response) {}'')
     \<lparr>sent = [], invoked = []\<rparr> =
   (Uncaught TypeError, \<lparr>sent = [], invoked = []\<rparr>)\<close>
    using responseHandler_data_unreadable
      [of \<open>\<lparr>JSON_parse = [''{"success": true, "data": null}'' \<mapsto>
        JObj [(''success'', JBool True), (''data'', JNull)]],
        request = (\<lambda>q. Responded [''{"success": true, "data": null}''])\<rparr>\<close>
        \<open>[''{"success": true, "data": null}'']\<close>
        \<open>JObj [(''success'', JBool True), (''data'', JNull)]\<close> \<open>JBool True\<close> JNull
        \<open>JFun ''function (error, response) {}''\<close> \<open>\<lparr>sent = [], invoked = []\<rparr>\<close>]
    by simp
  from a b show ?thesis by blast
qed

text \<open>
  C9 as stated fails: in the body \<open>{"success": true, "data": 5}\<close> the \<open>data\<close> is not an
  object, yet the read of \<open>_success\<close> on the number does not throw, and the callback is
  called with the parsed value.
\<close>

theorem responseHandler_data_number_counterexample:
  \<open>responseHandler
     \<lparr>JSON_parse = [''{"success": true, "data": 5}'' \<mapsto>
        JObj [(''success'', JBool True), (''data'', JNum 5)]],
      request = (\<lambda>q. Responded [''{"success": true, "data": 5}''])\<rparr>
     (Responded [''{"success": true, "data": 5}'']) (JFun ''function (error, response) {}'')
     \<lparr>sent = [], invoked = []\<rparr> =
   (Returned,
    \<lparr>sent = [],
     invoked = [(JFun ''function (error, response) {}'',
                 CbResult (JObj [(''success'', JBool True), (''data'', JNum 5)]))]\<rparr>)\<close>
  by (simp add: responseHandler_Responded on_end_def isUndefined_def call_def)

text \<open>
  C5, as the code has it. A call of \<open>prepareRequest\<close> with a callback that is a function
  hands one request to the HTTP library and calls the callback at most once. When the
  request emits a response whose body does not parse, or parses to a value on which the
  reads of \<open>success\<close> and, when that is truthy, of \<open>data._success\<close> do not throw, the
  callback is called exactly once. When the request emits \<open>error\<close> (connection refused,
  DNS failure), the callback is not called: \<open>responseHandler\<close> listens to \<open>response\<close>
  only, and the emitter throws the error, unmodified and caught by nobody.
\<close>

theorem prepareRequest_calls_back:
  assumes "isFunction cb"
    and "q = \<lparr>method' = m, uri = ENDPOINT @ p,
           headers = [(''Accept'', ''application/json''), (''User-Agent'', r)]\<rparr>"
  shows
    "(\<forall>e. request E q = Failed e \<longrightarrow>
        prepareRequest E r m p cb w = (Uncaught e, w\<lparr>sent := sent w @ [q]\<rparr>)) \<and>
     (\<forall>chunks. request E q = Responded chunks \<longrightarrow>
        prepareRequest E r m p cb w = (Uncaught TypeError, w\<lparr>sent := sent w @ [q]\<rparr>) \<or>
        (\<exists>a. prepareRequest E r m p cb w =
           (Returned, w\<lparr>sent := sent w @ [q], invoked := invoked w @ [(cb, a)]\<rparr>))) \<and>
     (\<forall>chunks. request E q = Responded chunks \<and>
        (JSON_parse E (concat chunks) = None \<or>
         (\<exists>response success.
            JSON_parse E (concat chunks) = Some response \<and>
            getProp response ''success'' = Inr success \<and>
            (truthy success \<longrightarrow>
               (\<exists>data data_success.
                  getProp response ''data'' = Inr data \<and>
                  getProp data ''_success'' = Inr data_success)))) \<longrightarrow>
        (\<exists>a. prepareRequest E r m p cb w =
           (Returned, w\<lparr>sent := sent w @ [q], invoked := invoked w @ [(cb, a)]\<rparr>)))"
proof (intro conjI allI impI)
  have pr: "prepareRequest E r m p cb w =
      responseHandler E (request E q) cb (w\<lparr>sent := sent w @ [q]\<rparr>)"
    using assms by (simp add: prepareRequest_def Let_def)
  {
    fix e assume "request E q = Failed e"
    then show "prepareRequest E r m p cb w = (Uncaught e, w\<lparr>sent := sent w @ [q]\<rparr>)"
      by (simp add: pr responseHandler_def)
  next
    fix chunks assume c: "request E q = Responded chunks"
    from on_end_outcomes [of E "concat chunks" cb "w\<lparr>sent := sent w @ [q]\<rparr>"]
    show "prepareRequest E r m p cb w = (Uncaught TypeError, w\<lparr>sent := sent w @ [q]\<rparr>) \<or>
        (\<exists>a. prepareRequest E r m p cb w =
           (Returned, w\<lparr>sent := sent w @ [q], invoked := invoked w @ [(cb, a)]\<rparr>))"
    proof
      assume "on_end E (concat chunks) cb (w\<lparr>sent := sent w @ [q]\<rparr>) =
        (Thrown TypeError, w\<lparr>sent := sent w @ [q]\<rparr>)"
      then show ?thesis by (simp add: pr c responseHandler_Responded)
    next
      assume "\<exists>a. on_end E (concat chunks) cb (w\<lparr>sent := sent w @ [q]\<rparr>) =
        call cb a (w\<lparr>sent := sent w @ [q]\<rparr>)"
      then obtain a where "on_end E (concat chunks) cb (w\<lparr>sent := sent w @ [q]\<rparr>) =
        call cb a (w\<lparr>sent := sent w @ [q]\<rparr>)" ..
      from responseHandler_call [OF assms(1) this]
      have "prepareRequest E r m p cb w =
           (Returned, w\<lparr>sent := sent w @ [q], invoked := invoked w @ [(cb, a)]\<rparr>)"
        by (simp add: pr c)
      then show ?thesis by blast
    qed
  next
    fix chunks
    assume h: "request E q = Responded chunks \<and>
        (JSON_parse E (concat chunks) = None \<or>
         (\<exists>response success.
            JSON_parse E (concat chunks) = Some response \<and>
            getProp response ''success'' = Inr success \<and>
            (truthy success \<longrightarrow>
               (\<exists>data data_success.
                  getProp response ''data'' = Inr data \<and>
                  getProp data ''_success'' = Inr data_success))))"
    then have "\<exists>a. on_end E (concat chunks) cb (w\<lparr>sent := sent w @ [q]\<rparr>) =
        call cb a (w\<lparr>sent := sent w @ [q]\<rparr>)"
      by (intro on_end_calls) blast
    then obtain a where "on_end E (concat chunks) cb (w\<lparr>sent := sent w @ [q]\<rparr>) =
        call cb a (w\<lparr>sent := sent w @ [q]\<rparr>)" ..
    from responseHandler_call [OF assms(1) this] h
    have "prepareRequest E r m p cb w =
           (Returned, w\<lparr>sent := sent w @ [q], invoked := invoked w @ [(cb, a)]\<rparr>)"
      by (simp add: pr)
    then show "\<exists>a. prepareRequest E r m p cb w =
           (Returned, w\<lparr>sent := sent w @ [q], invoked := invoked w @ [(cb, a)]\<rparr>)"
      by blast
  }
qed


theorem prepareRequest_calls_back_witness:
  \<open>prepareRequest
     \<lparr>JSON_parse = [''{"success": true, "data": {"x": 1}}'' \<mapsto>
        JObj [(''success'', JBool True), (''data'', JObj [(''x'', JNum 1)])]],
      request = (\<lambda>q. Responded [''{"success": true, '', ''"data": {"x": 1}}''])\<rparr>
     ''me@example.com'' ''GET'' ''/player/na/Faker'' (JFun ''function (error, profile) {}'')
     \<lparr>sent = [], invoked = []\<rparr> =
   (Returned,
    \<lparr>sent = [\<lparr>method' = ''GET'', uri = ''http://api.captainteemo.com/player/na/Faker'',
       headers = [(''Accept'', ''application/json''), (''User-Agent'', ''me@example.com'')]\<rparr>],
     invoked = [(JFun ''function (error, profile) {}'',
       CbResult (JObj [(''success'', JBool True), (''data'', JObj [(''x'', JNum 1)])]))]\<rparr>) \<and>
   prepareRequest
     \<lparr>JSON_parse = Map.empty, request = (\<lambda>q. Failed (Error ''getaddrinfo ENOTFOUND''))\<rparr>
     ''me@example.com'' ''GET'' ''/player/na/Faker'' (JFun ''function (error, profile) {}'')
     \<lparr>sent = [], invoked = []\<rparr> =
   (Uncaught (Error ''getaddrinfo ENOTFOUND''),
    \<lparr>sent = [\<lparr>method' = ''GET'', uri = ''http://api.captainteemo.com/player/na/Faker'',
       headers = [(''Accept'', ''application/json''), (''User-Agent'', ''me@example.com'')]\<rparr>],
     invoked = []\<rparr>)\<close>
proof -
  have f: "isFunction (JFun ''function (error, profile) {}'')" by simp
  have q: "\<lparr>method' = ''GET'', uri = ''http://api.captainteemo.com/player/na/Faker'',
       headers = [(''Accept'', ''application/json''), (''User-Agent'', ''me@example.com'')]\<rparr> =
     \<lparr>method' = ''GET'', uri = ENDPOINT @ ''/player/na/Faker'',
       headers = [(''Accept'', ''application/json''), (''User-Agent'', ''me@example.com'')]\<rparr>"
    by (simp add: ENDPOINT_def)
  note t = prepareRequest_calls_back [OF f q]
  have a: \<open>\<exists>a. prepareRequest
     \<lparr>JSON_parse = [''{"success": true, "data": {"x": 1}}'' \<mapsto>
        JObj [(''success'', JBool True), (''data'', JObj [(''x'', JNum 1)])]],
      request = (\<lambda>q. Responded [''{"success": true, '', ''"data": {"x": 1}}''])\<rparr>
     ''me@example.com'' ''GET'' ''/player/na/Faker'' (JFun ''function (error, profile) {}'')
     \<lparr>sent = [], invoked = []\<rparr> =
   (Returned,
    \<lparr>sent = [\<lparr>method' = ''GET'', uri = ''http://api.captainteemo.com/player/na/Faker'',
       headers = [(''Accept'', ''application/json''), (''User-Agent'', ''me@example.com'')]\<rparr>],
     invoked = [(JFun ''function (error, profile) {}'', a)]\<rparr>)\<close>
    using t [of \<open>\<lparr>JSON_parse = [''{"success": true, "data": {"x": 1}}'' \<mapsto>
        JObj [(''success'', JBool True), (''data'', JObj [(''x'', JNum 1)])]],
      request = (\<lambda>q. Responded [''{"success": true, '', ''"data": {"x": 1}}''])\<rparr>\<close>
      \<open>\<lparr>sent = [], invoked = []\<rparr>\<close>]
    by simp
  have a': \<open>prepareRequest
     \<lparr>JSON_parse = [''{"success": true, "data": {"x": 1}}'' \<mapsto>
        JObj [(''success'', JBool True), (''data'', JObj [(''x'', JNum 1)])]],
      request = (\<lambda>q. Responded [''{"success": true, '', ''"data": {"x": 1}}''])\<rparr>
     ''me@example.com'' ''GET'' ''/player/na/Faker'' (JFun ''function (error, profile) {}'')
     \<lparr>sent = [], invoked = []\<rparr> =
   (Returned,
    \<lparr>sent = [\<lparr>method' = ''GET'', uri = ''http://api.captainteemo.com/player/na/Faker'',
       headers = [(''Accept'', ''application/json''), (''User-Agent'', ''me@example.com'')]\<rparr>],
     invoked = [(JFun ''function (error, profile) {}'',
       CbResult (JObj [(''success'', JBool True), (''data'', JObj [(''x'', JNum 1)])]))]\<rparr>)\<close>
    using a
    by (simp add: prepareRequest_def responseHandler_Responded on_end_def isUndefined_def
        call_def ENDPOINT_def)
  have b: \<open>prepareRequest
     \<lparr>JSON_parse = Map.empty, request = (\<lambda>q. Failed (Error ''getaddrinfo ENOTFOUND''))\<rparr>
     ''me@example.com'' ''GET'' ''/player/na/Faker'' (JFun ''function (error, profile) {}'')
     \<lparr>sent = [], invoked = []\<rparr> =
   (Uncaught (Error ''getaddrinfo ENOTFOUND''),
    \<lparr>sent = [\<lparr>method' = ''GET'', uri = ''http://api.captainteemo.com/player/na/Faker'',
       headers = [(''Accept'', ''application/json''), (''User-Agent'', ''me@example.com'')]\<rparr>],
     invoked = []\<rparr>)\<close>
    using t [of \<open>\<lparr>JSON_parse = Map.empty,
      request = (\<lambda>q. Failed (Error ''getaddrinfo ENOTFOUND''))\<rparr>\<close>
      \<open>\<lparr>sent = [], invoked = []\<rparr>\<close>]
    by simp
  from a' b show ?thesis by blast
qed

text \<open>
  C5 as stated fails: when the connection is refused, the request is handed to the HTTP
  library and the callback is called zero times; the error is thrown by the emitter.
\<close>

theorem prepareRequest_transport_error_counterexample:
  "prepareRequest
     \<lparr>JSON_parse = Map.empty, request = (\<lambda>q. Failed (Error ''connect ECONNREFUSED''))\<rparr>
     ''me@example.com'' ''GET'' ''/player/na/Faker'' (JFun ''function (error, profile) {}'')
     \<lparr>sent = [], invoked = []\<rparr> =
   (Uncaught (Error ''connect ECONNREFUSED''),
    \<lparr>sent = [\<lparr>method' = ''GET'', uri = ''http://api.captainteemo.com/player/na/Faker'',
       headers = [(''Accept'', ''application/json''), (''User-Agent'', ''me@example.com'')]\<rparr>],
     invoked = []\<rparr>)"
  by (simp add: prepareRequest_def responseHandler_def ENDPOINT_def)

end
